theory Spec2Isabelle
  imports Main "HOL-Library.AList" "HOL-Library.Sublist"
begin

section \<open>Data model (types.ts)\<close>

text \<open>
  The TypeScript interfaces of the application become records. A JavaScript \<open>number\<close>
  that only ever holds a count or a point total is an \<open>int\<close>; an optional property
  (\<open>profilePictureUrl?\<close>) and a nullable value (\<open>string | null\<close>) are an
  \<open>option\<close>. Field names carry a prefix where two interfaces share a name.
\<close>

datatype BadgeType = QUIZ_NOVICE | QUIZ_ADEPT | QUIZ_MASTER | TOPIC_ACE | PERFECT_SCORE

record Badge =
  badge_id :: BadgeType
  badge_name :: string
  badge_description :: string
  dateEarned :: string

record LeaderboardEntry =
  userId :: string
  lb_username :: string
  score :: int
  lb_profilePictureUrl :: "string option"

record TopicPerf =
  correct :: int
  total :: int

text \<open>
  \<open>topicPerformance\<close> is a JavaScript object used as a dictionary; it is kept as an
  association list so that the insertion order of the keys is part of the value.
\<close>

record UserStats =
  quizzesCompleted :: int
  quizzesAttempted :: int
  topicsMastered :: "string list"
  totalScorePoints :: int
  totalQuestionsAnswered :: int
  timeSpentLearningInSeconds :: int
  topicPerformance :: "(string \<times> TopicPerf) list"
  badges :: "Badge list"
  currentStreak :: int
  lastActivityDate :: string

record User =
  user_id :: string
  username :: string
  password :: string
  isAdmin :: bool
  profilePictureUrl :: "string option"
  stats :: UserStats

text \<open>The free-form \<open>details\<close> payload of a log entry: string keys, string or number values.\<close>

datatype detail = DStr string | DNum int

record ActivityLog =
  log_id :: string
  log_userId :: string
  log_username :: string
  log_timestamp :: string
  log_type :: string
  log_details :: "(string \<times> detail) list"

section \<open>The current user\<close>

text \<open>
  \<open>const currentUser = users.find(u => u.id === currentUserId) || null\<close>: the first
  user whose id is the stored id, or nobody. Every handler closes over this value as it
  was at the render from which the handler was created.
\<close>

definition currentUser :: "User list \<Rightarrow> string option \<Rightarrow> User option" where
  "currentUser us cid =
     (case cid of None \<Rightarrow> None | Some i \<Rightarrow> find (\<lambda>u. user_id u = i) us)"

section \<open>Activity log\<close>

text \<open>
  \<open>addLogEntry\<close> (App.tsx, lines 239 to 250). The entry's id and timestamp come from
  \<open>generateUniqueId()\<close> and the clock; they are arguments here. The result is what the
  updater \<open>prev => [newLog, ...prev.slice(0, 49)]\<close> returns for the stored log
  \<open>prev\<close>; without a current user the setter is never called.
\<close>

definition newLog :: "User \<Rightarrow> string \<Rightarrow> string \<Rightarrow> string \<Rightarrow> (string \<times> detail) list \<Rightarrow> ActivityLog" where
  "newLog u new_id now ty details =
     \<lparr>log_id = new_id, log_userId = user_id u, log_username = username u,
      log_timestamp = now, log_type = ty, log_details = details\<rparr>"

definition addLogEntry ::
  "User option \<Rightarrow> string \<Rightarrow> string \<Rightarrow> string \<Rightarrow> (string \<times> detail) list
     \<Rightarrow> ActivityLog list \<Rightarrow> ActivityLog list" where
  "addLogEntry cu new_id now ty details prev =
     (case cu of
        None \<Rightarrow> prev
      | Some u \<Rightarrow> newLog u new_id now ty details # take 49 prev)"

text \<open>
  A run of calls, each made by whoever is the current user at that moment (possibly
  nobody), all on the one log stored under \<open>ACTIVITY_LOG_KEY\<close>.
\<close>

fun addLogEntries ::
  "(User option \<times> string \<times> string \<times> string \<times> (string \<times> detail) list) list
     \<Rightarrow> ActivityLog list \<Rightarrow> ActivityLog list" where
  "addLogEntries [] lg = lg"
| "addLogEntries ((cu, new_id, now, ty, details) # calls) lg =
     addLogEntries calls (addLogEntry cu new_id now ty details lg)"

section \<open>Leaderboard\<close>

text \<open>
  \<open>Array.prototype.findIndex\<close>: the index of the first element satisfying the
  predicate; JavaScript's \<open>-1\<close> is \<open>None\<close>.
\<close>

fun findIndex :: "('a \<Rightarrow> bool) \<Rightarrow> 'a list \<Rightarrow> nat option" where
  "findIndex p [] = None"
| "findIndex p (x # xs) = (if p x then Some 0 else map_option Suc (findIndex p xs))"

text \<open>
  Truthiness of a \<open>string | null | undefined\<close> value: \<open>null\<close>, \<open>undefined\<close> and
  the empty string are falsy.
\<close>

definition truthy :: "string option \<Rightarrow> bool" where
  "truthy v = (case v of None \<Rightarrow> False | Some t \<Rightarrow> t \<noteq> [])"

text \<open>
  \<open>sort((a, b) => b.score - a.score)\<close>. The comparator orders entries by descending
  score, and \<open>Array.prototype.sort\<close> is stable, so the result is the stable sort on the
  key \<open>- score\<close>; \<open>sort_key\<close> is the stable insertion sort.
\<close>

definition sortByScoreDesc :: "LeaderboardEntry list \<Rightarrow> LeaderboardEntry list" where
  "sortByScoreDesc = sort_key (\<lambda>e. - score e)"

text \<open>The entry at \<open>userIndex\<close> after the two in-place assignments of lines 302 to 305.\<close>

definition bumpEntry :: "int \<Rightarrow> string option \<Rightarrow> LeaderboardEntry \<Rightarrow> LeaderboardEntry" where
  "bumpEntry pointsToAdd pic e =
     (let e1 = e\<lparr>score := score e + pointsToAdd\<rparr>
      in if truthy pic then e1\<lparr>lb_profilePictureUrl := pic\<rparr> else e1)"

text \<open>The object pushed at line 307 for a user who has no entry yet.\<close>

definition freshEntry :: "User \<Rightarrow> string \<Rightarrow> int \<Rightarrow> string option \<Rightarrow> LeaderboardEntry" where
  "freshEntry u uname pointsToAdd pic =
     \<lparr>userId = user_id u, lb_username = uname, score = pointsToAdd, lb_profilePictureUrl = pic\<rparr>"

text \<open>
  \<open>updateLeaderboard\<close> (App.tsx, lines 297 to 311): the value the updater returns for the
  stored leaderboard \<open>prev\<close>. \<open>cu\<close> is the current user the callback closes over.
\<close>

definition updateLeaderboard ::
  "User option \<Rightarrow> string \<Rightarrow> int \<Rightarrow> string option \<Rightarrow> LeaderboardEntry list
     \<Rightarrow> LeaderboardEntry list" where
  "updateLeaderboard cu uname pointsToAdd pic prev =
     (let newLeaderboard =
        (case findIndex (\<lambda>e. lb_username e = uname) prev of
           Some userIndex \<Rightarrow> prev[userIndex := bumpEntry pointsToAdd pic (prev ! userIndex)]
         | None \<Rightarrow>
             (case cu of
                Some u \<Rightarrow> prev @ [freshEntry u uname pointsToAdd pic]
              | None \<Rightarrow> prev))
      in take 20 (sortByScoreDesc newLeaderboard))"

text \<open>
  A full leaderboard: twenty users \<open>u\<close>, \<open>uu\<close>, \<open>uuu\<close>, ... with five points each.
\<close>

definition fullBoard :: "LeaderboardEntry list" where
  "fullBoard =
     map (\<lambda>i. \<lparr>userId = replicate (Suc i) (CHR ''i''), lb_username = replicate (Suc i) (CHR ''u''),
               score = 5, lb_profilePictureUrl = None\<rparr>) [0..<20]"

section \<open>Badges\<close>

text \<open>The second argument of a badge criterion: \<open>{ score, questionCount, topic }\<close>.\<close>

record QuizResult =
  q_score :: int
  q_questionCount :: int
  q_topic :: string

text \<open>
  \<open>BADGE_DEFINITIONS\<close> lives in \<open>hooks/constants\<close>, which is not part of the sources at
  hand. It is an object keyed by badge type whose values carry a name, a description and
  a \<open>criteria\<close> function of the updated stats and the quiz result. It is a parameter of
  the model: an association list in the object's key order.
\<close>

record BadgeDefinition =
  def_name :: string
  def_description :: string
  criteria :: "UserStats \<Rightarrow> QuizResult \<Rightarrow> bool"

type_synonym BadgeDefinitions = "(BadgeType \<times> BadgeDefinition) list"

text \<open>\<open>(currentStats.topicPerformance[topic]?.correct || 0)\<close> and its sibling for \<open>total\<close>.\<close>

definition topicCorrect :: "UserStats \<Rightarrow> string \<Rightarrow> int" where
  "topicCorrect st tp = (case map_of (topicPerformance st) tp of None \<Rightarrow> 0 | Some p \<Rightarrow> correct p)"

definition topicTotal :: "UserStats \<Rightarrow> string \<Rightarrow> int" where
  "topicTotal st tp = (case map_of (topicPerformance st) tp of None \<Rightarrow> 0 | Some p \<Rightarrow> total p)"

text \<open>The stats snapshot \<open>updatedStats\<close> built at lines 258 to 269.\<close>

definition updatedStats :: "UserStats \<Rightarrow> int \<Rightarrow> int \<Rightarrow> string \<Rightarrow> UserStats" where
  "updatedStats currentStats sc questionCount tp =
     currentStats
       \<lparr>quizzesCompleted := quizzesCompleted currentStats + 1,
        quizzesAttempted := quizzesAttempted currentStats + 1,
        topicPerformance :=
          AList.update tp
            \<lparr>correct = topicCorrect currentStats tp + sc,
             total = topicTotal currentStats tp + questionCount\<rparr>
            (topicPerformance currentStats)\<rparr>"

definition hasBadge :: "Badge list \<Rightarrow> BadgeType \<Rightarrow> bool" where
  "hasBadge held badgeKey = list_ex (\<lambda>b. badge_id b = badgeKey) held"

definition newBadge :: "BadgeType \<Rightarrow> BadgeDefinition \<Rightarrow> string \<Rightarrow> Badge" where
  "newBadge badgeKey d now =
     \<lparr>badge_id = badgeKey, badge_name = def_name d, badge_description = def_description d,
      dateEarned = now\<rparr>"

text \<open>
  The \<open>for ... in\<close> loop of lines 271 to 286 over the keys of \<open>BADGE_DEFINITIONS\<close>, with
  the array \<open>earned\<close> as accumulator. \<open>held\<close> is \<open>currentUser.stats.badges\<close>, which the
  loop never changes. The timestamp of a new badge is the clock reading \<open>now\<close>.
\<close>

fun awardLoop ::
  "BadgeDefinitions \<Rightarrow> Badge list \<Rightarrow> UserStats \<Rightarrow> QuizResult \<Rightarrow> string \<Rightarrow> Badge list
     \<Rightarrow> Badge list" where
  "awardLoop [] held upd q now earned = earned"
| "awardLoop ((badgeKey, d) # rest) held upd q now earned =
     (if \<not> hasBadge held badgeKey
      then (if criteria d upd q
            then awardLoop rest held upd q now (earned @ [newBadge badgeKey d now])
            else awardLoop rest held upd q now earned)
      else awardLoop rest held upd q now earned)"

text \<open>
  \<open>awardBadges\<close> (App.tsx, lines 252 to 295): the list it returns. Showing the badge
  modal and logging each badge do not change the returned list and are left out.
\<close>

definition awardBadges ::
  "BadgeDefinitions \<Rightarrow> User option \<Rightarrow> int \<Rightarrow> int \<Rightarrow> string \<Rightarrow> string \<Rightarrow> Badge list" where
  "awardBadges defs cu sc questionCount tp now =
     (case cu of
        None \<Rightarrow> []
      | Some u \<Rightarrow>
          awardLoop defs (badges (stats u)) (updatedStats (stats u) sc questionCount tp)
            \<lparr>q_score = sc, q_questionCount = questionCount, q_topic = tp\<rparr> now [])"

section \<open>User stats\<close>

text \<open>
  \<open>updateUserStats\<close> (lines 201 to 210): nothing happens for a falsy current-user id;
  otherwise the update function is applied to the stats of every stored user with that id.
\<close>

definition updateUserStats ::
  "string option \<Rightarrow> (UserStats \<Rightarrow> UserStats) \<Rightarrow> User list \<Rightarrow> User list" where
  "updateUserStats cid updateFn prevUsers =
     (if \<not> truthy cid then prevUsers
      else map (\<lambda>user. if Some (user_id user) = cid
                        then user\<lparr>stats := updateFn (stats user)\<rparr> else user) prevUsers)"


section \<open>Dates\<close>

text \<open>
  The JavaScript \<open>Date\<close> operations that \<open>handleActivityCompletion\<close> uses. A time value
  is a number of milliseconds since the epoch, a day is the number of a UTC day since the
  epoch.
\<close>

definition msPerDay :: int where
  "msPerDay = 86400000"

text \<open>
  The time zone of the browser: the offset of local standard time and of local daylight
  time from UTC, in milliseconds, and the periods of daylight time, each from a UTC
  instant up to (not including) a UTC instant.
\<close>

record TimeZone =
  standardOffset :: int
  daylightOffset :: int
  daylightPeriods :: "(int \<times> int) list"

definition inDaylight :: "TimeZone \<Rightarrow> int \<Rightarrow> bool" where
  "inDaylight tz t = list_ex (\<lambda>p. fst p \<le> t \<and> t < snd p) (daylightPeriods tz)"

text \<open>The offset in force at a UTC instant, as \<open>getDate\<close> uses it to find the local date.\<close>

definition offsetAtUtc :: "TimeZone \<Rightarrow> int \<Rightarrow> int" where
  "offsetAtUtc tz t = (if inDaylight tz t then daylightOffset tz else standardOffset tz)"

text \<open>
  The offset by which \<open>setDate\<close> turns a local time back into a time value. A local time
  that occurs twice, when the clocks go back, or not at all, when they go forward, is read
  with the offset in force before the change.
\<close>

definition offsetAtLocal :: "TimeZone \<Rightarrow> int \<Rightarrow> int" where
  "offsetAtLocal tz l =
     (if inDaylight tz (l - daylightOffset tz) then daylightOffset tz else standardOffset tz)"

text \<open>Year, month and day of the month of a UTC day, in the Gregorian calendar.\<close>

definition civilFromDays :: "int \<Rightarrow> int \<times> int \<times> int" where
  "civilFromDays days =
     (let z = days + 719468;
          era = z div 146097;
          doe = z - era * 146097;
          yoe = (doe - doe div 1460 + doe div 36524 - doe div 146096) div 365;
          doy = doe - (365 * yoe + yoe div 4 - yoe div 100);
          mp = (5 * doy + 2) div 153;
          d = doy - (153 * mp + 2) div 5 + 1;
          m = (if mp < 10 then mp + 3 else mp - 9);
          y = yoe + era * 400
      in (if m \<le> 2 then y + 1 else y, m, d))"

definition digitChar :: "int \<Rightarrow> char" where
  "digitChar n = ''0123456789'' ! nat (n mod 10)"

definition pad2 :: "int \<Rightarrow> string" where
  "pad2 n = [digitChar (n div 10), digitChar n]"

definition pad4 :: "int \<Rightarrow> string" where
  "pad4 n = [digitChar (n div 1000), digitChar (n div 100), digitChar (n div 10), digitChar n]"

text \<open>
  \<open>toISOString().split('T')[0]\<close> of a time value within the given UTC day: the form
  \<open>YYYY-MM-DD\<close>, for the years 0 to 9999.
\<close>

definition isoDate :: "int \<Rightarrow> string" where
  "isoDate days =
     (case civilFromDays days of (y, m, d) \<Rightarrow> pad4 y @ ''-'' @ pad2 m @ ''-'' @ pad2 d)"

text \<open>
  \<open>const todayStr = new Date().toISOString().split('T')[0]\<close> (line 215), for the clock
  reading \<open>clock\<close>.
\<close>

definition todayStr :: "int \<Rightarrow> string" where
  "todayStr clock = isoDate (clock div msPerDay)"

text \<open>
  Lines 222 to 225. \<open>new Date(todayStr)\<close> reads a date without a time as midnight UTC
  of that day. \<open>yesterday.setDate(today.getDate() - 1)\<close> works on the local time: it
  goes one day back on the local calendar and keeps the local time of day, and the result
  is turned back into a time value. \<open>toISOString\<close> prints the UTC date of that time
  value.
\<close>

definition yesterdayStr :: "TimeZone \<Rightarrow> int \<Rightarrow> string" where
  "yesterdayStr tz clock =
     (let today = (clock div msPerDay) * msPerDay;
          localToday = today + offsetAtUtc tz today;
          localYesterday = localToday - msPerDay;
          yesterday = localYesterday - offsetAtLocal tz localYesterday
      in isoDate (yesterday div msPerDay))"

text \<open>
  \<open>handleActivityCompletion\<close> (lines 212 to 236), for the browser's time zone and the
  clock reading. The new streak is computed from the current user the callback closes
  over, and written into the stored stats.
\<close>

definition handleActivityCompletion ::
  "TimeZone \<Rightarrow> int \<Rightarrow> User option \<Rightarrow> string option \<Rightarrow> User list \<Rightarrow> User list" where
  "handleActivityCompletion tz clock cu cid prevUsers =
     (case cu of
        None \<Rightarrow> prevUsers
      | Some u \<Rightarrow>
          (let lastActivityStr = lastActivityDate (stats u) in
           if todayStr clock = lastActivityStr then prevUsers
           else
             (let newStreak = (if lastActivityStr = yesterdayStr tz clock
                               then currentStreak (stats u) + 1 else 1)
              in updateUserStats cid
                   (\<lambda>st. st\<lparr>currentStreak := newStreak, lastActivityDate := todayStr clock\<rparr>)
                   prevUsers)))"

text \<open>The stats update of a completed quiz (lines 528 to 544).\<close>

definition quizStatsUpdate :: "string \<Rightarrow> int \<Rightarrow> int \<Rightarrow> Badge list \<Rightarrow> UserStats \<Rightarrow> UserStats" where
  "quizStatsUpdate tp finalScore questionCount earnedBadges st =
     (let topicPerf = (case map_of (topicPerformance st) tp of
                         None \<Rightarrow> \<lparr>correct = 0, total = 0\<rparr> | Some p \<Rightarrow> p)
      in st\<lparr>quizzesCompleted := quizzesCompleted st + 1,
            totalScorePoints := totalScorePoints st + finalScore,
            totalQuestionsAnswered := totalQuestionsAnswered st + questionCount,
            topicPerformance :=
              AList.update tp
                \<lparr>correct = correct topicPerf + finalScore,
                 total = total topicPerf + questionCount\<rparr>
                (topicPerformance st),
            badges := badges st @ earnedBadges\<rparr>)"

text \<open>
  What the completion of a quiz does to the stored users (lines 526 to 547): badges are
  computed from the current user \<open>cu\<close> of the handler, appended by the stats update, and
  the streak is refreshed. \<open>tp\<close> is the selected topic, possibly \<open>null\<close>; \<open>now\<close> is
  the timestamp of the badges, \<open>clock\<close> the clock reading of the streak.
\<close>

definition quizCompletedUsers ::
  "BadgeDefinitions \<Rightarrow> TimeZone \<Rightarrow> User option \<Rightarrow> string option \<Rightarrow> string option \<Rightarrow> int \<Rightarrow> int
     \<Rightarrow> string \<Rightarrow> int \<Rightarrow> User list \<Rightarrow> User list" where
  "quizCompletedUsers defs tz cu cid tp finalScore questionCount now clock prevUsers =
     (case cu of
        None \<Rightarrow> prevUsers
      | Some u \<Rightarrow>
          (case tp of
             None \<Rightarrow> prevUsers
           | Some t \<Rightarrow>
               if t = [] then prevUsers
               else
                 (let earnedBadges = awardBadges defs cu finalScore questionCount t now;
                      users1 = updateUserStats cid
                                 (quizStatsUpdate t finalScore questionCount earnedBadges) prevUsers
                  in handleActivityCompletion tz clock cu cid users1)))"

text \<open>
  A callback that \<open>handleAnswer\<close> has handed to \<open>setTimeout\<close> on the last question
  (lines 510 to 551). It holds the values of the render that created it: the current
  user with the stats of that render, the current-user id, the topic, and the final score
  and question count it will compute from the answers and questions of that render. The
  last two fields are the clock readings at the moment the callback runs.
\<close>

record TimeoutCallback =
  t_currentUser :: "User option"
  t_currentUserId :: "string option"
  t_topic :: "string option"
  t_finalScore :: int
  t_questionCount :: int
  t_now :: string
  t_clock :: int

text \<open>
  The pending callbacks run one after the other, each on the users stored at that moment.
  Every call of \<open>handleAnswer\<close> queues one; nothing cancels a callback that is already
  queued.
\<close>

fun runTimeouts ::
  "BadgeDefinitions \<Rightarrow> TimeZone \<Rightarrow> TimeoutCallback list \<Rightarrow> User list \<Rightarrow> User list" where
  "runTimeouts defs tz [] us = us"
| "runTimeouts defs tz (c # cs) us =
     runTimeouts defs tz cs
       (quizCompletedUsers defs tz (t_currentUser c) (t_currentUserId c) (t_topic c)
          (t_finalScore c) (t_questionCount c) (t_now c) (t_clock c) us)"

text \<open>Every stored user holds each badge id at most once.\<close>

definition badgesDistinct :: "User list \<Rightarrow> bool" where
  "badgesDistinct us = list_all (\<lambda>u. distinct (map badge_id (badges (stats u)))) us"

section \<open>Quiz scoring\<close>

datatype QuestionType = MCQ | TrueFalse | QandA | AssertionReason

record QuizQuestion =
  question :: string
  reason :: "string option"
  options :: "string list"
  answer :: string
  explanation :: string
  qtype :: QuestionType

text \<open>
  One slot of the array \<open>userAnswers\<close>: \<open>null\<close>, an answer string, or a hole left by an
  assignment beyond the end of the array.
\<close>

datatype RecordedAnswer = Hole | Null | Answered string

text \<open>
  \<open>const newAnswers = [...userAnswers]; newAnswers[currentQuestionIndex] = answer\<close>.
  An assignment past the end extends a JavaScript array, leaving holes in between.
\<close>

definition setAnswer :: "RecordedAnswer list \<Rightarrow> nat \<Rightarrow> string option \<Rightarrow> RecordedAnswer list" where
  "setAnswer userAnswers i a =
     (let v = (case a of None \<Rightarrow> Null | Some t \<Rightarrow> Answered t)
      in if i < length userAnswers then userAnswers[i := v]
         else userAnswers @ replicate (i - length userAnswers) Hole @ [v])"

datatype js_error = TypeError

text \<open>
  The \<open>forEach\<close> of lines 518 to 522, from position \<open>index\<close> on, with the running
  \<open>finalScore\<close>. \<open>forEach\<close> skips holes; reading \<open>.answer\<close> of a question that does not
  exist throws.
\<close>

fun countCorrect ::
  "QuizQuestion list \<Rightarrow> nat \<Rightarrow> RecordedAnswer list \<Rightarrow> nat \<Rightarrow> js_error + nat" where
  "countCorrect qs index [] finalScore = Inr finalScore"
| "countCorrect qs index (Hole # rest) finalScore = countCorrect qs (Suc index) rest finalScore"
| "countCorrect qs index (ans # rest) finalScore =
     (if index < length qs
      then countCorrect qs (Suc index) rest
             (if ans = Answered (answer (qs ! index)) then Suc finalScore else finalScore)
      else Inl TypeError)"

datatype AnswerOutcome = NextQuestion nat | QuizFinished nat

text \<open>
  The decision of \<open>handleAnswer\<close> (lines 505 to 524): either the index of the next
  question, or the final score handed to \<open>setScore\<close>. The comparison is made on
  integers, since \<open>questions.length - 1\<close> is \<open>-1\<close> for an empty quiz.
\<close>

definition handleAnswer ::
  "QuizQuestion list \<Rightarrow> RecordedAnswer list \<Rightarrow> nat \<Rightarrow> string option
     \<Rightarrow> js_error + AnswerOutcome" where
  "handleAnswer qs userAnswers currentQuestionIndex a =
     (let newAnswers = setAnswer userAnswers currentQuestionIndex a
      in if int currentQuestionIndex < int (length qs) - 1
         then Inr (NextQuestion (currentQuestionIndex + 1))
         else (case countCorrect qs 0 newAnswers 0 of
                 Inl e \<Rightarrow> Inl e
               | Inr finalScore \<Rightarrow> Inr (QuizFinished finalScore)))"

text \<open>A recorded answer and a question agree.\<close>

definition isCorrect :: "RecordedAnswer \<times> QuizQuestion \<Rightarrow> bool" where
  "isCorrect p = (fst p = Answered (answer (snd p)))"

section \<open>Screens\<close>

datatype GameState =
    LOGIN_SCREEN | HOME_SCREEN | GRADE_SELECTION | TOPIC_SELECTION | DIAGRAM_IDEAS_SELECTION
  | DIAGRAM_GENERATOR | LANGUAGE_SELECTION | DOUBT_SOLVER | VOICE_TUTOR_SESSION
  | QUIZ_DIFFICULTY_SELECTION | QUIZ_COUNT_SELECTION | QUIZ_TIMER_SELECTION | QUIZ_IN_PROGRESS
  | QUIZ_SCORE | WORKSHEET_DIFFICULTY_SELECTION | WORKSHEET_COUNT_SELECTION | WORKSHEET_DISPLAY
  | NOTES_DISPLAY | CONCEPT_DEEP_DIVE | USER_PROFILE | EDIT_PROFILE_PICTURE | ADMIN_PANEL
  | LEADERBOARD | VIRTUAL_LAB_INPUT | VIRTUAL_LAB_DISPLAY | REAL_WORLD_CONNECTIONS_INPUT
  | REAL_WORLD_CONNECTIONS_DISPLAY | HISTORICAL_CHAT_SELECTION | HISTORICAL_CHAT_SESSION
  | AI_STORY_WEAVER_INPUT | AI_STORY_WEAVER_DISPLAY | SCIENCE_FAIR_BUDDY_INPUT
  | SCIENCE_FAIR_BUDDY_IDEAS | SCIENCE_FAIR_BUDDY_PLAN | SCIENCE_LENS_INPUT
  | SCIENCE_LENS_DISPLAY | WHAT_IF_SCENARIO_INPUT | WHAT_IF_SCENARIO_SESSION

text \<open>
  \<open>GameState\<close> is a numeric TypeScript enum: at run time a screen is a number, the
  position of its name in the declaration.
\<close>

definition gameStates :: "GameState list" where
  "gameStates =
     [LOGIN_SCREEN, HOME_SCREEN, GRADE_SELECTION, TOPIC_SELECTION, DIAGRAM_IDEAS_SELECTION,
      DIAGRAM_GENERATOR, LANGUAGE_SELECTION, DOUBT_SOLVER, VOICE_TUTOR_SESSION,
      QUIZ_DIFFICULTY_SELECTION, QUIZ_COUNT_SELECTION, QUIZ_TIMER_SELECTION, QUIZ_IN_PROGRESS,
      QUIZ_SCORE, WORKSHEET_DIFFICULTY_SELECTION, WORKSHEET_COUNT_SELECTION, WORKSHEET_DISPLAY,
      NOTES_DISPLAY, CONCEPT_DEEP_DIVE, USER_PROFILE, EDIT_PROFILE_PICTURE, ADMIN_PANEL,
      LEADERBOARD, VIRTUAL_LAB_INPUT, VIRTUAL_LAB_DISPLAY, REAL_WORLD_CONNECTIONS_INPUT,
      REAL_WORLD_CONNECTIONS_DISPLAY, HISTORICAL_CHAT_SELECTION, HISTORICAL_CHAT_SESSION,
      AI_STORY_WEAVER_INPUT, AI_STORY_WEAVER_DISPLAY, SCIENCE_FAIR_BUDDY_INPUT,
      SCIENCE_FAIR_BUDDY_IDEAS, SCIENCE_FAIR_BUDDY_PLAN, SCIENCE_LENS_INPUT,
      SCIENCE_LENS_DISPLAY, WHAT_IF_SCENARIO_INPUT, WHAT_IF_SCENARIO_SESSION]"

definition gameStateOfValue :: "nat \<Rightarrow> GameState option" where
  "gameStateOfValue v = (if v < length gameStates then Some (gameStates ! v) else None)"

definition valueOfGameState :: "GameState \<Rightarrow> nat" where
  "valueOfGameState g = (case findIndex (\<lambda>h. h = g) gameStates of Some v \<Rightarrow> v | None \<Rightarrow> 0)"

record HistoricalScientist =
  sci_id :: string
  sci_name :: string
  era :: string
  field :: string
  systemInstruction :: string
  imageUrl :: string

record ScienceFairProjectIdea =
  idea_id :: string
  idea_title :: string
  idea_description :: string

text \<open>
  What \<open>renderContent\<close> returns: the JSX of the \<open>case\<close> with the given label, the
  full-screen loader, \<open>null\<close> after a call of \<open>goToHome()\<close>, or the paragraph
  "Unknown game state" of the default branch.
\<close>

datatype Rendered =
    Panel GameState
  | FullScreenLoader string
  | NullAfterGoToHome
  | UnknownGameState

text \<open>
  The \<open>switch\<close> of \<open>renderContent\<close> (App.tsx, lines 1228 to 2199), one equation per
  \<open>case\<close> in the order of the source, the default branch last. The arguments after the
  screen are the values the guards inside the cases read: the current user, the
  questions, the selected scientist and the selected project idea.
\<close>

fun renderCase ::
  "GameState \<Rightarrow> User \<Rightarrow> QuizQuestion list \<Rightarrow> HistoricalScientist option
     \<Rightarrow> ScienceFairProjectIdea option \<Rightarrow> Rendered" where
  "renderCase HOME_SCREEN cu qs sci idea = Panel HOME_SCREEN"
| "renderCase GRADE_SELECTION cu qs sci idea = Panel GRADE_SELECTION"
| "renderCase TOPIC_SELECTION cu qs sci idea = Panel TOPIC_SELECTION"
| "renderCase LANGUAGE_SELECTION cu qs sci idea = Panel LANGUAGE_SELECTION"
| "renderCase DIAGRAM_IDEAS_SELECTION cu qs sci idea = Panel DIAGRAM_IDEAS_SELECTION"
| "renderCase DIAGRAM_GENERATOR cu qs sci idea = Panel DIAGRAM_GENERATOR"
| "renderCase VOICE_TUTOR_SESSION cu qs sci idea = Panel VOICE_TUTOR_SESSION"
| "renderCase DOUBT_SOLVER cu qs sci idea = Panel DOUBT_SOLVER"
| "renderCase QUIZ_DIFFICULTY_SELECTION cu qs sci idea = Panel QUIZ_DIFFICULTY_SELECTION"
| "renderCase WORKSHEET_DIFFICULTY_SELECTION cu qs sci idea = Panel WORKSHEET_DIFFICULTY_SELECTION"
| "renderCase QUIZ_COUNT_SELECTION cu qs sci idea = Panel QUIZ_COUNT_SELECTION"
| "renderCase WORKSHEET_COUNT_SELECTION cu qs sci idea = Panel WORKSHEET_COUNT_SELECTION"
| "renderCase QUIZ_TIMER_SELECTION cu qs sci idea = Panel QUIZ_TIMER_SELECTION"
| "renderCase QUIZ_IN_PROGRESS cu qs sci idea =
     (if length qs = 0 then FullScreenLoader ''Loading quiz...'' else Panel QUIZ_IN_PROGRESS)"
| "renderCase QUIZ_SCORE cu qs sci idea = Panel QUIZ_SCORE"
| "renderCase WORKSHEET_DISPLAY cu qs sci idea = Panel WORKSHEET_DISPLAY"
| "renderCase NOTES_DISPLAY cu qs sci idea = Panel NOTES_DISPLAY"
| "renderCase CONCEPT_DEEP_DIVE cu qs sci idea = Panel CONCEPT_DEEP_DIVE"
| "renderCase USER_PROFILE cu qs sci idea = Panel USER_PROFILE"
| "renderCase EDIT_PROFILE_PICTURE cu qs sci idea = Panel EDIT_PROFILE_PICTURE"
| "renderCase ADMIN_PANEL cu qs sci idea =
     (if \<not> isAdmin cu then NullAfterGoToHome else Panel ADMIN_PANEL)"
| "renderCase LEADERBOARD cu qs sci idea = Panel LEADERBOARD"
| "renderCase VIRTUAL_LAB_INPUT cu qs sci idea = Panel VIRTUAL_LAB_INPUT"
| "renderCase VIRTUAL_LAB_DISPLAY cu qs sci idea = Panel VIRTUAL_LAB_DISPLAY"
| "renderCase REAL_WORLD_CONNECTIONS_DISPLAY cu qs sci idea = Panel REAL_WORLD_CONNECTIONS_DISPLAY"
| "renderCase HISTORICAL_CHAT_SELECTION cu qs sci idea = Panel HISTORICAL_CHAT_SELECTION"
| "renderCase HISTORICAL_CHAT_SESSION cu qs sci idea =
     (if sci = None then NullAfterGoToHome else Panel HISTORICAL_CHAT_SESSION)"
| "renderCase AI_STORY_WEAVER_INPUT cu qs sci idea = Panel AI_STORY_WEAVER_INPUT"
| "renderCase AI_STORY_WEAVER_DISPLAY cu qs sci idea = Panel AI_STORY_WEAVER_DISPLAY"
| "renderCase SCIENCE_FAIR_BUDDY_INPUT cu qs sci idea = Panel SCIENCE_FAIR_BUDDY_INPUT"
| "renderCase SCIENCE_FAIR_BUDDY_IDEAS cu qs sci idea = Panel SCIENCE_FAIR_BUDDY_IDEAS"
| "renderCase SCIENCE_FAIR_BUDDY_PLAN cu qs sci idea =
     (if idea = None then NullAfterGoToHome else Panel SCIENCE_FAIR_BUDDY_PLAN)"
| "renderCase SCIENCE_LENS_INPUT cu qs sci idea = Panel SCIENCE_LENS_INPUT"
| "renderCase SCIENCE_LENS_DISPLAY cu qs sci idea = Panel SCIENCE_LENS_DISPLAY"
| "renderCase WHAT_IF_SCENARIO_INPUT cu qs sci idea = Panel WHAT_IF_SCENARIO_INPUT"
| "renderCase WHAT_IF_SCENARIO_SESSION cu qs sci idea = Panel WHAT_IF_SCENARIO_SESSION"
| "renderCase _ cu qs sci idea = UnknownGameState"

text \<open>\<open>renderContent\<close> on the run-time value of \<open>gameState\<close>.\<close>

definition renderContent ::
  "nat \<Rightarrow> User \<Rightarrow> QuizQuestion list \<Rightarrow> HistoricalScientist option
     \<Rightarrow> ScienceFairProjectIdea option \<Rightarrow> Rendered" where
  "renderContent v cu qs sci idea =
     (case gameStateOfValue v of
        None \<Rightarrow> UnknownGameState
      | Some g \<Rightarrow> renderCase g cu qs sci idea)"

text \<open>The screens whose case contains a guard.\<close>

definition guardedScreens :: "GameState list" where
  "guardedScreens = [QUIZ_IN_PROGRESS, ADMIN_PANEL, HISTORICAL_CHAT_SESSION, SCIENCE_FAIR_BUDDY_PLAN]"

section \<open>Application state and handlers\<close>

record NoteSection =
  title :: string
  points :: "string list"

record DiagramIdea =
  di_id :: string
  di_prompt :: string
  di_description :: string

record Diagram =
  dg_id :: string
  dg_prompt :: string
  dg_image :: string
  dg_description :: string

record VirtualLabStep =
  vl_title :: string
  vl_description :: string
  vl_imagePrompt :: string
  vl_image :: "string option"

record RealWorldExample =
  rw_title :: string
  rw_explanation :: string
  rw_imagePrompt :: string
  rw_image :: "string option"

record ScienceFairProjectStep =
  sf_title :: string
  sf_description :: string
  sf_imagePrompt :: string
  sf_image :: "string option"

record ScienceLensImage =
  sl_data :: string
  sl_mimeType :: string
  sl_dataUrl :: string

text \<open>
  The part of the component state that the handlers below read or write. \<open>notes'\<close> is
  the state variable \<open>notes\<close> and \<open>quizScore\<close> the state variable \<open>score\<close>; \<open>grade\<close>
  is \<open>Grade | null\<close>, \<open>topic\<close> is \<open>string | null\<close>, \<open>apiError\<close> is
  \<open>string | null\<close>. A difficulty and an app mode are strings.
\<close>

record AppState =
  users :: "User list"
  currentUserId :: "string option"
  gameState :: GameState
  topic :: "string option"
  grade :: "nat option"
  isLoading :: bool
  loadingMessage :: string
  apiError :: "string option"
  notes' :: "NoteSection list"
  usernameInput :: string
  passwordInput :: string
  authError :: string
  activityLog :: "ActivityLog list"
  inputPrompt :: string
  questions :: "QuizQuestion list"
  userAnswers :: "RecordedAnswer list"
  currentQuestionIndex :: nat
  quizScore :: int
  difficulty :: "string option"
  questionCount :: int
  timePerQuestion :: int
  timeLeft :: int
  conceptExplanation :: string
  diagramIdeas :: "DiagramIdea list"
  generatedDiagram :: "Diagram option"
  studyPlan :: "string option"
  virtualLabSteps :: "VirtualLabStep list"
  realWorldExamples :: "RealWorldExample list"
  aiStory :: string
  scienceFairProjectIdeas :: "ScienceFairProjectIdea list"
  selectedProjectIdea :: "ScienceFairProjectIdea option"
  scienceFairProjectPlan :: "ScienceFairProjectStep list"
  scienceLensImage :: "ScienceLensImage option"
  scienceLensExplanation :: string

text \<open>
  What a handler reads from outside the state: the results of \<open>generateUniqueId()\<close> for
  a new user and for a log entry, the ISO timestamp of a log entry, the clock reading
  from which the activity date is taken, and the browser's time zone.
\<close>

record Env =
  env_userId :: string
  env_logId :: string
  env_now :: string
  env_clock :: int
  env_zone :: TimeZone

text \<open>A thrown value: an \<open>Error\<close> with its message, or anything else.\<close>

datatype thrown = ErrorObject string | OtherValue

text \<open>\<open>String.prototype.includes\<close>: the needle occurs as a contiguous substring.\<close>

fun str_includes :: "string \<Rightarrow> string \<Rightarrow> bool" where
  "str_includes [] needle = (needle = [])"
| "str_includes (c # cs) needle = (prefix needle (c # cs) \<or> str_includes cs needle)"

text \<open>\<open>error instanceof Error ? error.message : "An unexpected error occurred."\<close>\<close>

definition errorMessage :: "thrown \<Rightarrow> string" where
  "errorMessage e = (case e of ErrorObject m \<Rightarrow> m | OtherValue \<Rightarrow> ''An unexpected error occurred.'')"

definition displayedMessage :: "string \<Rightarrow> string" where
  "displayedMessage message =
     (if str_includes message ''API key not valid''
      then ''The provided API Key is not valid. Please check the configuration.''
      else message)"

text \<open>
  \<open>withApiErrorHandler\<close> (lines 318 to 334). The awaited call has either thrown
  (\<open>Inl\<close>) or returned (\<open>Inr\<close>); the handler returns the result or \<open>null\<close>, and the
  new state.
\<close>

definition withApiErrorHandler :: "thrown + 'a \<Rightarrow> AppState \<Rightarrow> 'a option \<times> AppState" where
  "withApiErrorHandler apiCall s =
     (case apiCall of
        Inr result \<Rightarrow> (Some result, s\<lparr>apiError := None\<rparr>)
      | Inl error \<Rightarrow>
          (None, s\<lparr>apiError := Some (displayedMessage (errorMessage error)), isLoading := False\<rparr>))"

text \<open>The quotation mark of the loading messages.\<close>

definition dquote :: string where
  "dquote = [CHR 0x22]"

text \<open>A number inside a template string.\<close>

fun showNat :: "nat \<Rightarrow> string" where
  "showNat n =
     (if n < 10 then [digitChar (int n)] else showNat (n div 10) @ [digitChar (int n)])"

text \<open>A string result that passes \<open>if (result)\<close>, and \<open>image || undefined\<close>.\<close>

definition truthyString :: "string option \<Rightarrow> string option" where
  "truthyString r = (case r of None \<Rightarrow> None | Some t \<Rightarrow> if t = [] then None else Some t)"

text \<open>
  The two callbacks that most handlers call, on the state the handler has reached. Both
  belong to the render that created the handler, so the current user \<open>cu\<close> and the
  current-user id \<open>cid\<close> are those of the state the handler started from.
\<close>

definition logEntry ::
  "Env \<Rightarrow> User option \<Rightarrow> string \<Rightarrow> (string \<times> detail) list \<Rightarrow> AppState \<Rightarrow> AppState" where
  "logEntry env cu ty details s =
     s\<lparr>activityLog := addLogEntry cu (env_logId env) (env_now env) ty details (activityLog s)\<rparr>"

definition activityCompleted :: "Env \<Rightarrow> User option \<Rightarrow> string option \<Rightarrow> AppState \<Rightarrow> AppState" where
  "activityCompleted env cu cid s =
     s\<lparr>users := handleActivityCompletion (env_zone env) (env_clock env) cu cid (users s)\<rparr>"

text \<open>\<open>if (!topic || !grade) return\<close>: the topic and grade when both are truthy.\<close>

definition topicAndGrade :: "AppState \<Rightarrow> (string \<times> nat) option" where
  "topicAndGrade s =
     (case topic s of
        None \<Rightarrow> None
      | Some t \<Rightarrow>
          (case grade s of
             None \<Rightarrow> None
           | Some g \<Rightarrow> if t = [] \<or> g = 0 then None else Some (t, g)))"

text \<open>
  \<open>handleGenerateDiagramIdeas\<close> (lines 336 to 346). \<open>newIds i\<close> is the id that
  \<open>generateUniqueId()\<close> yields for the idea at position \<open>i\<close>.
\<close>

definition handleGenerateDiagramIdeas ::
  "(nat \<Rightarrow> string) \<Rightarrow> thrown + DiagramIdea list \<Rightarrow> AppState \<Rightarrow> AppState" where
  "handleGenerateDiagramIdeas newIds apiCall s =
     (case topicAndGrade s of
        None \<Rightarrow> s
      | Some (t, g) \<Rightarrow>
          (let s1 = s\<lparr>isLoading := True,
                      loadingMessage := ''Brainstorming diagram ideas for '' @ dquote @ t @ dquote @ ''...''\<rparr>;
               (ideas, s2) = withApiErrorHandler apiCall s1;
               s3 = (case ideas of
                       None \<Rightarrow> s2
                     | Some is \<Rightarrow>
                         s2\<lparr>diagramIdeas := map (\<lambda>(i, idea). idea\<lparr>di_id := newIds i\<rparr>) (enumerate 0 is),
                            gameState := DIAGRAM_IDEAS_SELECTION\<rparr>)
           in s3\<lparr>isLoading := False\<rparr>))"

text \<open>\<open>handleGenerateDiagram\<close> (lines 348 to 359).\<close>

definition handleGenerateDiagram :: "Env \<Rightarrow> DiagramIdea \<Rightarrow> thrown + string \<Rightarrow> AppState \<Rightarrow> AppState" where
  "handleGenerateDiagram env idea apiCall s =
     (let cu = currentUser (users s) (currentUserId s);
          cid = currentUserId s;
          s1 = s\<lparr>isLoading := True,
                 loadingMessage := ''Generating diagram: '' @ dquote @ di_description idea @ dquote @ ''...''\<rparr>;
          (image, s2) = withApiErrorHandler apiCall s1;
          s3 = (case truthyString image of
                  None \<Rightarrow> s2
                | Some img \<Rightarrow>
                    activityCompleted env cu cid
                      (logEntry env cu ''DIAGRAM_GENERATED'' [(''description'', DStr (di_description idea))]
                         (s2\<lparr>generatedDiagram :=
                               Some \<lparr>dg_id = di_id idea, dg_prompt = di_prompt idea, dg_image = img,
                                     dg_description = di_description idea\<rparr>,
                             gameState := DIAGRAM_GENERATOR\<rparr>)))
      in s3\<lparr>isLoading := False\<rparr>)"

text \<open>
  \<open>handleGenerateQuiz\<close> (lines 361 to 390), for the chosen difficulty, number of
  questions, time per question and mode.
\<close>

definition handleGenerateQuiz ::
  "Env \<Rightarrow> string \<Rightarrow> int \<Rightarrow> int \<Rightarrow> string \<Rightarrow> thrown + QuizQuestion list \<Rightarrow> AppState \<Rightarrow> AppState" where
  "handleGenerateQuiz env selectedDifficulty selectedCount selectedTime mode apiCall s =
     (case topicAndGrade s of
        None \<Rightarrow> s
      | Some (t, g) \<Rightarrow>
          (let cu = currentUser (users s) (currentUserId s);
               cid = currentUserId s;
               s1 = s\<lparr>isLoading := True,
                      loadingMessage := ''Generating '' @ selectedDifficulty @ '' '' @ mode @ ''...''\<rparr>;
               (questionsResult, s2) = withApiErrorHandler apiCall s1;
               s3 = (case questionsResult of
                       None \<Rightarrow> s2
                     | Some qs \<Rightarrow>
                         (let s4 = s2\<lparr>questions := qs,
                                       userAnswers := replicate (length qs) Null,
                                       currentQuestionIndex := 0,
                                       quizScore := 0\<rparr>
                          in if mode = ''quiz''
                             then
                               (let s5 = s4\<lparr>difficulty := Some selectedDifficulty,
                                             questionCount := selectedCount,
                                             timePerQuestion := selectedTime,
                                             timeLeft := (if 0 < selectedTime then selectedTime else timeLeft s4),
                                             gameState := QUIZ_IN_PROGRESS\<rparr>;
                                    s6 = logEntry env cu ''QUIZ_STARTED''
                                           [(''topic'', DStr t), (''grade'', DNum (int g)),
                                            (''difficulty'', DStr selectedDifficulty)] s5
                                in s6\<lparr>users := updateUserStats cid
                                        (\<lambda>st. st\<lparr>quizzesAttempted := quizzesAttempted st + 1\<rparr>) (users s6)\<rparr>)
                             else
                               activityCompleted env cu cid
                                 (logEntry env cu ''WORKSHEET_GENERATED''
                                    [(''topic'', DStr t), (''grade'', DNum (int g)),
                                     (''difficulty'', DStr selectedDifficulty)]
                                    (s4\<lparr>gameState := WORKSHEET_DISPLAY\<rparr>))))
           in s3\<lparr>isLoading := False\<rparr>))"

text \<open>\<open>handleGenerateNotes\<close> (lines 392 to 404).\<close>

definition handleGenerateNotes :: "Env \<Rightarrow> thrown + NoteSection list \<Rightarrow> AppState \<Rightarrow> AppState" where
  "handleGenerateNotes env apiCall s =
     (case topicAndGrade s of
        None \<Rightarrow> s
      | Some (t, g) \<Rightarrow>
          (let cu = currentUser (users s) (currentUserId s);
               cid = currentUserId s;
               s1 = s\<lparr>isLoading := True,
                      loadingMessage := ''Generating study notes for '' @ dquote @ t @ dquote @ ''...''\<rparr>;
               (notesResult, s2) = withApiErrorHandler apiCall s1;
               s3 = (case notesResult of
                       None \<Rightarrow> s2
                     | Some ns \<Rightarrow>
                         activityCompleted env cu cid
                           (logEntry env cu ''NOTES_GENERATED''
                              [(''topic'', DStr t), (''grade'', DNum (int g))]
                              (s2\<lparr>notes' := ns, gameState := NOTES_DISPLAY\<rparr>)))
           in s3\<lparr>isLoading := False\<rparr>))"

text \<open>\<open>handleGenerateDeepDive\<close> (lines 406 to 418).\<close>

definition handleGenerateDeepDive :: "Env \<Rightarrow> thrown + string \<Rightarrow> AppState \<Rightarrow> AppState" where
  "handleGenerateDeepDive env apiCall s =
     (case topicAndGrade s of
        None \<Rightarrow> s
      | Some (t, g) \<Rightarrow>
          (let cu = currentUser (users s) (currentUserId s);
               cid = currentUserId s;
               s1 = s\<lparr>isLoading := True,
                      loadingMessage := ''Diving deep into '' @ dquote @ t @ dquote @ ''...''\<rparr>;
               (explanation, s2) = withApiErrorHandler apiCall s1;
               s3 = (case truthyString explanation of
                       None \<Rightarrow> s2
                     | Some ex \<Rightarrow>
                         activityCompleted env cu cid
                           (logEntry env cu ''DEEP_DIVE_REQUESTED''
                              [(''topic'', DStr t), (''grade'', DNum (int g))]
                              (s2\<lparr>conceptExplanation := ex, gameState := CONCEPT_DEEP_DIVE\<rparr>)))
           in s3\<lparr>isLoading := False\<rparr>))"

text \<open>\<open>generateAndSetStudyPlan\<close> (lines 638 to 644).\<close>

definition generateAndSetStudyPlan :: "thrown + string \<Rightarrow> AppState \<Rightarrow> AppState" where
  "generateAndSetStudyPlan apiCall s =
     (case currentUser (users s) (currentUserId s) of
        None \<Rightarrow> s
      | Some u \<Rightarrow>
          (let (plan, s2) = withApiErrorHandler apiCall s
           in (case truthyString plan of
                 None \<Rightarrow> s2
               | Some p \<Rightarrow> s2\<lparr>studyPlan := Some p\<rparr>)))"

text \<open>
  The loop that three handlers run over the generated steps (lines 655 to 659, 675 to
  679 and 758 to 762): for the step at position \<open>i\<close> of \<open>n\<close> it sets the loading
  message, awaits the wrapped image call, whose outcome is \<open>images i\<close>, and pushes the
  step with the image, or without one when the call yielded nothing. The three loops
  differ in the word of the message and in the type of the steps.
\<close>

fun visualsLoop ::
  "string \<Rightarrow> ('a \<Rightarrow> string option \<Rightarrow> 'a) \<Rightarrow> (nat \<Rightarrow> thrown + string) \<Rightarrow> nat \<Rightarrow> nat
     \<Rightarrow> 'a list \<Rightarrow> 'a list \<Rightarrow> AppState \<Rightarrow> 'a list \<times> AppState" where
  "visualsLoop word withImage images n i [] withImages s = (withImages, s)"
| "visualsLoop word withImage images n i (st # rest) withImages s =
     (let s1 = s\<lparr>loadingMessage :=
                    ''Generating visual for '' @ word @ '' '' @ showNat (i + 1) @ ''/'' @ showNat n @ ''...''\<rparr>;
          (image, s2) = withApiErrorHandler (images i) s1
      in visualsLoop word withImage images n (i + 1) rest
           (withImages @ [withImage st (truthyString image)]) s2)"

text \<open>\<open>handleGenerateVirtualLab\<close> (lines 646 to 664).\<close>

definition handleGenerateVirtualLab ::
  "Env \<Rightarrow> thrown + VirtualLabStep list \<Rightarrow> (nat \<Rightarrow> thrown + string) \<Rightarrow> AppState \<Rightarrow> AppState" where
  "handleGenerateVirtualLab env apiCall images s =
     (if inputPrompt s = [] then s
      else
        (let cu = currentUser (users s) (currentUserId s);
             cid = currentUserId s;
             s1 = activityCompleted env cu cid
                    (logEntry env cu ''VIRTUAL_LAB_STARTED'' [(''prompt'', DStr (inputPrompt s))]
                       (s\<lparr>isLoading := True,
                          loadingMessage := ''Setting up your virtual experiment for: '' @ dquote
                                              @ inputPrompt s @ dquote @ ''...''\<rparr>));
             (steps, s2) = withApiErrorHandler apiCall s1;
             s3 = (case steps of
                     None \<Rightarrow> s2
                   | Some sts \<Rightarrow>
                       (let (stepsWithImages, s4) =
                              visualsLoop ''step'' (\<lambda>st img. st\<lparr>vl_image := img\<rparr>) images
                                (length sts) 0 sts [] s2
                        in s4\<lparr>virtualLabSteps := stepsWithImages, gameState := VIRTUAL_LAB_DISPLAY\<rparr>))
         in s3\<lparr>isLoading := False\<rparr>))"

text \<open>\<open>handleGenerateRealWorldExamples\<close> (lines 666 to 684).\<close>

definition handleGenerateRealWorldExamples ::
  "Env \<Rightarrow> thrown + RealWorldExample list \<Rightarrow> (nat \<Rightarrow> thrown + string) \<Rightarrow> AppState \<Rightarrow> AppState" where
  "handleGenerateRealWorldExamples env apiCall images s =
     (case truthyString (topic s) of
        None \<Rightarrow> s
      | Some t \<Rightarrow>
        (let cu = currentUser (users s) (currentUserId s);
             cid = currentUserId s;
             s1 = activityCompleted env cu cid
                    (logEntry env cu ''REAL_WORLD_EXAMPLE_GENERATED'' [(''topic'', DStr t)]
                       (s\<lparr>isLoading := True,
                          loadingMessage := ''Finding real-world connections for '' @ dquote
                                              @ t @ dquote @ ''...''\<rparr>));
             (examples, s2) = withApiErrorHandler apiCall s1;
             s3 = (case examples of
                     None \<Rightarrow> s2
                   | Some exs \<Rightarrow>
                       (let (examplesWithImages, s4) =
                              visualsLoop ''example'' (\<lambda>ex img. ex\<lparr>rw_image := img\<rparr>) images
                                (length exs) 0 exs [] s2
                        in s4\<lparr>realWorldExamples := examplesWithImages,
                              gameState := REAL_WORLD_CONNECTIONS_DISPLAY\<rparr>))
         in s3\<lparr>isLoading := False\<rparr>))"

text \<open>\<open>handleGenerateAIStory\<close> (lines 722 to 734).\<close>

definition handleGenerateAIStory :: "Env \<Rightarrow> thrown + string \<Rightarrow> AppState \<Rightarrow> AppState" where
  "handleGenerateAIStory env apiCall s =
     (if inputPrompt s = [] then s
      else
        (let cu = currentUser (users s) (currentUserId s);
             cid = currentUserId s;
             s1 = activityCompleted env cu cid
                    (logEntry env cu ''AI_STORY_WEAVER_USED'' [(''prompt'', DStr (inputPrompt s))]
                       (s\<lparr>isLoading := True,
                          loadingMessage := ''Weaving a scientific tale about '' @ dquote
                                              @ inputPrompt s @ dquote @ ''...''\<rparr>));
             (story, s2) = withApiErrorHandler apiCall s1;
             s3 = (case truthyString story of
                     None \<Rightarrow> s2
                   | Some st \<Rightarrow> s2\<lparr>aiStory := st, gameState := AI_STORY_WEAVER_DISPLAY\<rparr>)
         in s3\<lparr>isLoading := False\<rparr>))"

text \<open>\<open>handleGenerateScienceFairIdeas\<close> (lines 736 to 748).\<close>

definition handleGenerateScienceFairIdeas ::
  "Env \<Rightarrow> (nat \<Rightarrow> string) \<Rightarrow> thrown + ScienceFairProjectIdea list \<Rightarrow> AppState \<Rightarrow> AppState" where
  "handleGenerateScienceFairIdeas env newIds apiCall s =
     (if inputPrompt s = [] then s
      else
        (let cu = currentUser (users s) (currentUserId s);
             cid = currentUserId s;
             s1 = activityCompleted env cu cid
                    (logEntry env cu ''SCIENCE_FAIR_BUDDY_STARTED'' [(''interests'', DStr (inputPrompt s))]
                       (s\<lparr>isLoading := True,
                          loadingMessage := ''Brainstorming project ideas based on your interests...''\<rparr>));
             (ideas, s2) = withApiErrorHandler apiCall s1;
             s3 = (case ideas of
                     None \<Rightarrow> s2
                   | Some is \<Rightarrow>
                       s2\<lparr>scienceFairProjectIdeas :=
                             map (\<lambda>(i, idea). idea\<lparr>idea_id := newIds i\<rparr>) (enumerate 0 is),
                          gameState := SCIENCE_FAIR_BUDDY_IDEAS\<rparr>)
         in s3\<lparr>isLoading := False\<rparr>))"

text \<open>\<open>handleGenerateScienceFairPlan\<close> (lines 750 to 767).\<close>

definition handleGenerateScienceFairPlan ::
  "ScienceFairProjectIdea \<Rightarrow> thrown + ScienceFairProjectStep list \<Rightarrow> (nat \<Rightarrow> thrown + string)
     \<Rightarrow> AppState \<Rightarrow> AppState" where
  "handleGenerateScienceFairPlan idea apiCall images s =
     (if inputPrompt s = [] then s
      else
        (let s1 = s\<lparr>isLoading := True,
                    loadingMessage := ''Creating a project plan for '' @ dquote @ idea_title idea
                                        @ dquote @ ''...'',
                    selectedProjectIdea := Some idea\<rparr>;
             (steps, s2) = withApiErrorHandler apiCall s1;
             s3 = (case steps of
                     None \<Rightarrow> s2
                   | Some sts \<Rightarrow>
                       (let (stepsWithImages, s4) =
                              visualsLoop ''step'' (\<lambda>st img. st\<lparr>sf_image := img\<rparr>) images
                                (length sts) 0 sts [] s2
                        in s4\<lparr>scienceFairProjectPlan := stepsWithImages,
                              gameState := SCIENCE_FAIR_BUDDY_PLAN\<rparr>))
         in s3\<lparr>isLoading := False\<rparr>))"

text \<open>\<open>handleExplainImage\<close> (lines 769 to 783).\<close>

definition handleExplainImage :: "Env \<Rightarrow> thrown + string \<Rightarrow> AppState \<Rightarrow> AppState" where
  "handleExplainImage env apiCall s =
     (if scienceLensImage s = None \<or> inputPrompt s = [] then s
      else
        (let cu = currentUser (users s) (currentUserId s);
             cid = currentUserId s;
             s1 = activityCompleted env cu cid
                    (logEntry env cu ''SCIENCE_LENS_USED'' [(''prompt'', DStr (inputPrompt s))]
                       (s\<lparr>isLoading := True,
                          loadingMessage := ''Analyzing your image with the Science Lens...''\<rparr>));
             (explanation, s2) = withApiErrorHandler apiCall s1;
             s3 = (case truthyString explanation of
                     None \<Rightarrow> s2
                   | Some ex \<Rightarrow> s2\<lparr>scienceLensExplanation := ex, gameState := SCIENCE_LENS_DISPLAY\<rparr>)
         in s3\<lparr>isLoading := False\<rparr>))"

text \<open>
  Two states show the same screen and hold the same generated content: questions, notes,
  explanation, diagram ideas, diagram, study plan, lab steps, examples, story, project
  ideas, project plan and image explanation.
\<close>

definition sameScreenAndContent :: "AppState \<Rightarrow> AppState \<Rightarrow> bool" where
  "sameScreenAndContent s s' =
     (gameState s' = gameState s \<and> questions s' = questions s \<and> notes' s' = notes' s
      \<and> conceptExplanation s' = conceptExplanation s \<and> diagramIdeas s' = diagramIdeas s
      \<and> generatedDiagram s' = generatedDiagram s \<and> studyPlan s' = studyPlan s
      \<and> virtualLabSteps s' = virtualLabSteps s \<and> realWorldExamples s' = realWorldExamples s
      \<and> aiStory s' = aiStory s \<and> scienceFairProjectIdeas s' = scienceFairProjectIdeas s
      \<and> scienceFairProjectPlan s' = scienceFairProjectPlan s
      \<and> scienceLensExplanation s' = scienceLensExplanation s)"

text \<open>What the image call at a position contributes to its step.\<close>

definition imageOf :: "thrown + string \<Rightarrow> string option" where
  "imageOf r = (case r of Inl e \<Rightarrow> None | Inr img \<Rightarrow> if img = [] then None else Some img)"

section \<open>Registration\<close>

text \<open>The stats of a user who has just registered (lines 1101 to 1112).\<close>

definition initialStats :: UserStats where
  "initialStats =
     \<lparr>quizzesCompleted = 0, quizzesAttempted = 0, topicsMastered = [], totalScorePoints = 0,
      totalQuestionsAnswered = 0, timeSpentLearningInSeconds = 0, topicPerformance = [],
      badges = [], currentStreak = 0, lastActivityDate = ''''\<rparr>"

definition newUser :: "string \<Rightarrow> string \<Rightarrow> string \<Rightarrow> User" where
  "newUser new_id uname pw =
     \<lparr>user_id = new_id, username = uname, password = pw, isAdmin = False,
      profilePictureUrl = None, stats = initialStats\<rparr>"

text \<open>
  \<open>handleRegister\<close> (lines 1085 to 1120). \<open>addLogEntry\<close> is the callback of the render
  that showed the form, so it uses the current user of the state before the call.
\<close>

definition handleRegister :: "Env \<Rightarrow> AppState \<Rightarrow> AppState" where
  "handleRegister env s =
     (let s1 = s\<lparr>authError := ''''\<rparr>
      in if list_ex (\<lambda>u. username u = usernameInput s) (users s)
         then s1\<lparr>authError := ''Username already exists.''\<rparr>
         else if usernameInput s = [] \<or> passwordInput s = []
         then s1\<lparr>authError := ''Username and password cannot be empty.''\<rparr>
         else
           (let nu = newUser (env_userId env) (usernameInput s) (passwordInput s)
            in s1\<lparr>users := users s @ [nu],
                   currentUserId := Some (user_id nu),
                   gameState := HOME_SCREEN,
                   usernameInput := '''',
                   passwordInput := '''',
                   activityLog :=
                     addLogEntry (currentUser (users s) (currentUserId s)) (env_logId env)
                       (env_now env) ''USER_REGISTERED'' [] (activityLog s)\<rparr>))"


section \<open>Example data\<close>

definition zedUser :: User where
  "zedUser = newUser ''id-zed'' ''zed'' ''pw''"

definition annUser :: User where
  "annUser = (newUser ''id-ann'' ''ann'' ''secret'')\<lparr>isAdmin := True\<rparr>"

definition twoBoard :: "LeaderboardEntry list" where
  "twoBoard =
     [\<lparr>userId = ''id-ann'', lb_username = ''ann'', score = 7, lb_profilePictureUrl = None\<rparr>,
      \<lparr>userId = ''id-bob'', lb_username = ''bob'', score = 4, lb_profilePictureUrl = None\<rparr>]"

text \<open>
  Sample values for the parameter \<open>BADGE_DEFINITIONS\<close>: a badge for a first completed
  quiz and a badge for a quiz without a mistake.
\<close>

definition exampleDefinitions :: BadgeDefinitions where
  "exampleDefinitions =
     [(QUIZ_NOVICE, \<lparr>def_name = ''Quiz Novice'', def_description = ''Complete a quiz'',
                     criteria = (\<lambda>st q. 1 \<le> quizzesCompleted st)\<rparr>),
      (PERFECT_SCORE, \<lparr>def_name = ''Perfect Score'', def_description = ''All answers right'',
                       criteria = (\<lambda>st q. q_score q = q_questionCount q)\<rparr>)]"

definition exampleQuestions :: "QuizQuestion list" where
  "exampleQuestions =
     [\<lparr>question = ''2 + 2'', reason = None, options = [''3'', ''4''], answer = ''4'',
       explanation = ''sum'', qtype = MCQ\<rparr>,
      \<lparr>question = ''Water is wet'', reason = None, options = [''True'', ''False''], answer = ''True'',
       explanation = ''yes'', qtype = TrueFalse\<rparr>]"

definition exampleState :: AppState where
  "exampleState =
     \<lparr>users = [annUser], currentUserId = None, gameState = LOGIN_SCREEN, topic = Some ''Light'',
      grade = Some 7, isLoading = False, loadingMessage = '''', apiError = None, notes' = [],
      usernameInput = ''zed'', passwordInput = ''pw'', authError = '''', activityLog = [],
      inputPrompt = ''volcano'', questions = [], userAnswers = [], currentQuestionIndex = 0,
      quizScore = 0, difficulty = None, questionCount = 10, timePerQuestion = 30, timeLeft = 0,
      conceptExplanation = '''', diagramIdeas = [], generatedDiagram = None, studyPlan = None,
      virtualLabSteps = [], realWorldExamples = [], aiStory = '''', scienceFairProjectIdeas = [],
      selectedProjectIdea = None, scienceFairProjectPlan = [], scienceLensImage = None,
      scienceLensExplanation = ''''\<rparr>"

text \<open>Three time zones: UTC, India, and New York with its daylight time of 2024.\<close>

definition utcZone :: TimeZone where
  "utcZone = \<lparr>standardOffset = 0, daylightOffset = 0, daylightPeriods = []\<rparr>"

definition kolkata :: TimeZone where
  "kolkata = \<lparr>standardOffset = 19800000, daylightOffset = 19800000, daylightPeriods = []\<rparr>"

definition newYork :: TimeZone where
  "newYork =
     \<lparr>standardOffset = - 18000000, daylightOffset = - 14400000,
      daylightPeriods = [(1710054000000, 1730613600000)]\<rparr>"

text \<open>The second of May 2024, ten o'clock UTC, in India.\<close>

definition exampleEnv :: Env where
  "exampleEnv =
     \<lparr>env_userId = ''id-zed'', env_logId = ''log-1'', env_now = ''2024-05-02T10:00:00.000Z'',
      env_clock = 1714644000000, env_zone = kolkata\<rparr>"

text \<open>
  The callback of the last question of a quiz on light that \<open>zed\<close>, who holds no badge,
  finishes with both answers right.
\<close>

definition zedLastQuestion :: TimeoutCallback where
  "zedLastQuestion =
     \<lparr>t_currentUser = Some zedUser, t_currentUserId = Some ''id-zed'', t_topic = Some ''Light'',
      t_finalScore = 2, t_questionCount = 2, t_now = ''2024-05-02T10:00:00.000Z'',
      t_clock = 1714644000000\<rparr>"

text \<open>A user on a streak of three days, last active on Sunday the third of November 2024.\<close>

definition bobUser :: User where
  "bobUser = (newUser ''id-bob'' ''bob'' ''hunter2'')
     \<lparr>stats := initialStats\<lparr>currentStreak := 3, lastActivityDate := ''2024-11-03''\<rparr>\<rparr>"

text \<open>Monday the fourth of November 2024, three o'clock in the afternoon UTC.\<close>

definition mondayAfternoon :: int where
  "mondayAfternoon = 1730732400000"

text \<open>The admin \<open>ann\<close> is logged in and asks for a virtual experiment on volcanoes.\<close>

definition labState :: AppState where
  "labState = exampleState\<lparr>currentUserId := Some ''id-ann'', gameState := VIRTUAL_LAB_INPUT\<rparr>"

definition volcanoStep :: VirtualLabStep where
  "volcanoStep =
     \<lparr>vl_title = ''Mix'', vl_description = ''Add vinegar to baking soda'',
      vl_imagePrompt = ''a foaming model volcano'', vl_image = None\<rparr>"

text \<open>Every image call of a handler fails for lack of quota.\<close>

definition allImagesFail :: "nat \<Rightarrow> thrown + string" where
  "allImagesFail i = Inl (ErrorObject ''quota exceeded'')"

text \<open>What the examples read off a stored user.\<close>

definition badgeIds :: "User \<Rightarrow> BadgeType list" where
  "badgeIds w = map badge_id (badges (stats w))"

definition streakAndDate :: "User \<Rightarrow> int \<times> string" where
  "streakAndDate w = (currentStreak (stats w), lastActivityDate (stats w))"

text \<open>The same user, last active on Saturday the second of November 2024.\<close>

definition bobSaturday :: User where
  "bobSaturday = bobUser\<lparr>stats := (stats bobUser)\<lparr>lastActivityDate := ''2024-11-02''\<rparr>\<rparr>"

section \<open>Properties of the activity log\<close>

lemma addLogEntry_length_le:
  "length prev \<le> 50 \<Longrightarrow> length (addLogEntry cu new_id now ty details prev) \<le> 50"
  by (cases cu) (simp_all add: addLogEntry_def)

lemma addLogEntries_length_le:
  "length lg \<le> 50 \<Longrightarrow> length (addLogEntries calls lg) \<le> 50"
proof (induction calls arbitrary: lg)
  case Nil
  then show ?case by simp
next
  case (Cons c calls)
  obtain cu new_id now ty details where c: "c = (cu, new_id, now, ty, details)"
    by (cases c) auto
  from Cons.prems have "length (addLogEntry cu new_id now ty details lg) \<le> 50"
    by (rule addLogEntry_length_le)
  then show ?case unfolding c by (simp add: Cons.IH)
qed

text \<open>
  Claim C2. A call of \<open>addLogEntry\<close> with a current user puts the new entry in front of
  the first 49 stored entries, whoever those entries belong to, so the one shared log
  holds at most 50 entries afterwards; a call without a current user leaves the log as it
  was. Over any run of calls by any users a log of at most 50 entries stays at most 50
  long.
\<close>

theorem addLogEntry_front_and_cap:
  "(cu = Some u \<longrightarrow>
      addLogEntry cu new_id now ty details prev = newLog u new_id now ty details # take 49 prev
      \<and> hd (addLogEntry cu new_id now ty details prev) = newLog u new_id now ty details
      \<and> length (addLogEntry cu new_id now ty details prev) = min 50 (Suc (length prev))
      \<and> length (addLogEntry cu new_id now ty details prev) \<le> 50)
   \<and> (cu = None \<longrightarrow> addLogEntry cu new_id now ty details prev = prev)
   \<and> (length prev \<le> 50 \<longrightarrow> length (addLogEntries calls prev) \<le> 50)"
  by (auto simp: addLogEntry_def addLogEntries_length_le)

theorem addLogEntry_front_and_cap_witness:
  "addLogEntry (Some zedUser) ''log-1'' ''2024-05-02T10:00:00.000Z'' ''QUIZ_STARTED'' [] []
     = [newLog zedUser ''log-1'' ''2024-05-02T10:00:00.000Z'' ''QUIZ_STARTED'' []]
   \<and> addLogEntry None ''log-1'' ''2024-05-02T10:00:00.000Z'' ''QUIZ_STARTED'' [] [] = []
   \<and> length (addLogEntries
        [(Some zedUser, ''log-1'', ''2024-05-02T10:00:00.000Z'', ''QUIZ_STARTED'', []),
         (Some annUser, ''log-2'', ''2024-05-02T10:05:00.000Z'', ''USER_LOGOUT'', [])] []) \<le> 50"
  using
    addLogEntry_front_and_cap [of "Some zedUser" zedUser "''log-1''" "''2024-05-02T10:00:00.000Z''"
      "''QUIZ_STARTED''" "[]" "[]"
      "[(Some zedUser, ''log-1'', ''2024-05-02T10:00:00.000Z'', ''QUIZ_STARTED'', []),
        (Some annUser, ''log-2'', ''2024-05-02T10:05:00.000Z'', ''USER_LOGOUT'', [])]"]
    addLogEntry_front_and_cap [of None zedUser "''log-1''" "''2024-05-02T10:00:00.000Z''"
      "''QUIZ_STARTED''" "[]" "[]" "[]"]
  by (simp add: addLogEntry_def)

section \<open>Properties of the leaderboard\<close>

lemma insort_key_before:
  "f y \<le> f x \<Longrightarrow> insort_key f y (as @ x # bs) = insort_key f y as @ x # bs"
  by (induction as) auto

lemma insort_key_after:
  "\<forall>a\<in>set as. \<not> f y \<le> f a \<Longrightarrow> insort_key f y (as @ bs) = as @ insort_key f y bs"
  by (induction as) auto

lemma sort_key_snoc:
  fixes f :: "'a \<Rightarrow> 'k::linorder"
  shows "sort_key f (xs @ [x]) =
     sort_key f (filter (\<lambda>y. f y \<le> f x) xs) @ x # sort_key f (filter (\<lambda>y. \<not> f y \<le> f x) xs)"
proof (induction xs)
  case Nil
  show ?case by simp
next
  case (Cons y xs)
  let ?A = "sort_key f (filter (\<lambda>y. f y \<le> f x) xs)"
  let ?B = "sort_key f (filter (\<lambda>y. \<not> f y \<le> f x) xs)"
  have step: "sort_key f ((y # xs) @ [x]) = insort_key f y (?A @ x # ?B)"
    using Cons.IH by simp
  show ?case
  proof (cases "f y \<le> f x")
    case True
    then show ?thesis
      unfolding step by (simp add: insort_key_before)
  next
    case False
    then have "\<forall>a\<in>set ?A. \<not> f y \<le> f a"
      by auto
    then have "insort_key f y (?A @ x # ?B) = ?A @ insort_key f y (x # ?B)"
      by (rule insort_key_after)
    with False show ?thesis
      unfolding step by simp
  qed
qed

lemma sorted_desc_sortByScoreDesc: "sorted_wrt (\<lambda>a b. score b \<le> score a) (sortByScoreDesc xs)"
proof -
  have "sorted (map (\<lambda>e. - score e) (sort_key (\<lambda>e. - score e) xs))"
    by (rule sorted_sort_key)
  then show ?thesis
    by (simp add: sortByScoreDesc_def sorted_map)
qed

lemma sorted_wrt_take_desc:
  "sorted_wrt P xs \<Longrightarrow> sorted_wrt P (take n xs)"
  by (metis append_take_drop_id sorted_wrt_append)


lemma findIndex_Some:
  "findIndex p xs = Some i \<Longrightarrow> i < length xs \<and> p (xs ! i)"
proof (induction xs arbitrary: i)
  case Nil
  then show ?case by simp
next
  case (Cons x xs)
  show ?case
  proof (cases "p x")
    case True
    with Cons.prems show ?thesis by simp
  next
    case False
    with Cons.prems obtain k where k: "findIndex p xs = Some k" "i = Suc k"
      by auto
    from Cons.IH [OF k(1)] k(2) show ?thesis
      by simp
  qed
qed

lemma findIndex_None: "findIndex p xs = None \<longleftrightarrow> (\<forall>x\<in>set xs. \<not> p x)"
  by (induction xs) auto

lemma mem_take_snoc_iff:
  "x \<notin> set as \<Longrightarrow> x \<in> set (take n (as @ x # bs)) \<longleftrightarrow> length as < n"
  by (auto simp: take_Cons' dest: in_set_takeD)

lemma score_bumpEntry: "score (bumpEntry pts pic e) = score e + pts"
  by (simp add: bumpEntry_def Let_def)

lemma username_bumpEntry: "lb_username (bumpEntry pts pic e) = lb_username e"
  by (simp add: bumpEntry_def Let_def)

lemma updateLeaderboard_sorted:
  "sorted_wrt (\<lambda>a b. score b \<le> score a) (updateLeaderboard cu uname pts pic prev)"
  by (simp add: updateLeaderboard_def Let_def sorted_wrt_take_desc sorted_desc_sortByScoreDesc)

lemma updateLeaderboard_length: "length (updateLeaderboard cu uname pts pic prev) \<le> 20"
  by (simp add: updateLeaderboard_def Let_def)

lemma updateLeaderboard_existing:
  assumes "findIndex (\<lambda>e. lb_username e = uname) prev = Some i" and "length prev \<le> 20"
  shows "bumpEntry pts pic (prev ! i) \<in> set (updateLeaderboard cu uname pts pic prev)"
proof -
  from assms(1) have i: "i < length prev"
    by (simp add: findIndex_Some)
  let ?new = "prev[i := bumpEntry pts pic (prev ! i)]"
  have "length (sortByScoreDesc ?new) \<le> 20"
    using assms(2) by (simp add: sortByScoreDesc_def)
  then have "take 20 (sortByScoreDesc ?new) = sortByScoreDesc ?new"
    by simp
  moreover have "bumpEntry pts pic (prev ! i) \<in> set (sortByScoreDesc ?new)"
    using i by (simp add: sortByScoreDesc_def set_update_memI)
  ultimately show ?thesis
    using assms(1) by (simp add: updateLeaderboard_def)
qed

lemma updateLeaderboard_fresh:
  assumes "findIndex (\<lambda>e. lb_username e = uname) prev = None"
  shows "freshEntry u uname pts pic \<in> set (updateLeaderboard (Some u) uname pts pic prev)
           \<longleftrightarrow> length (filter (\<lambda>e. pts \<le> score e) prev) < 20"
proof -
  let ?f = "\<lambda>e. - score e" and ?x = "freshEntry u uname pts pic"
  let ?A = "sort_key ?f (filter (\<lambda>y. ?f y \<le> ?f ?x) prev)"
  let ?B = "sort_key ?f (filter (\<lambda>y. \<not> ?f y \<le> ?f ?x) prev)"
  have name: "lb_username ?x = uname"
    by (simp add: freshEntry_def)
  from assms have "\<forall>e\<in>set prev. lb_username e \<noteq> uname"
    by (simp add: findIndex_None)
  with name have "?x \<notin> set prev"
    by auto
  then have "?x \<notin> set ?A"
    by simp
  then have "?x \<in> set (take 20 (?A @ ?x # ?B)) \<longleftrightarrow> length ?A < 20"
    by (rule mem_take_snoc_iff)
  moreover have "length ?A = length (filter (\<lambda>e. pts \<le> score e) prev)"
    by (simp add: freshEntry_def)
  moreover have "updateLeaderboard (Some u) uname pts pic prev = take 20 (?A @ ?x # ?B)"
    using assms by (simp add: updateLeaderboard_def sortByScoreDesc_def sort_key_snoc)
  ultimately show ?thesis
    by simp
qed

lemma updateLeaderboard_fresh_only:
  assumes "findIndex (\<lambda>e. lb_username e = uname) prev = None"
    and "e \<in> set (updateLeaderboard (Some u) uname pts pic prev)" and "lb_username e = uname"
  shows "e = freshEntry u uname pts pic"
proof -
  from assms(1) have absent: "\<forall>e\<in>set prev. lb_username e \<noteq> uname"
    by (simp add: findIndex_None)
  from assms(1,2) have "e \<in> set (sortByScoreDesc (prev @ [freshEntry u uname pts pic]))"
    by (auto simp: updateLeaderboard_def dest: in_set_takeD)
  then have "e \<in> set prev \<or> e = freshEntry u uname pts pic"
    by (auto simp: sortByScoreDesc_def)
  with absent assms(3) show ?thesis
    by auto
qed

text \<open>
  Claim C1, as the code has it. After every call of \<open>updateLeaderboard\<close> the board is sorted
  by descending score and has at most 20 entries. If the named user has an entry and the
  stored board has at most 20 entries, the result contains that entry with the points
  added to its score. If the named user has no entry and somebody is logged in, the only
  entry the result can hold under that name is the fresh one with exactly the points added,
  and it is there exactly when fewer than 20 stored entries have at least that many
  points: the cut to the first 20 drops it otherwise.
\<close>

theorem updateLeaderboard_sorted_top20:
  "sorted_wrt (\<lambda>a b. score b \<le> score a) (updateLeaderboard cu uname pts pic prev)
   \<and> length (updateLeaderboard cu uname pts pic prev) \<le> 20
   \<and> (findIndex (\<lambda>e. lb_username e = uname) prev = Some i \<and> length prev \<le> 20 \<longrightarrow>
        bumpEntry pts pic (prev ! i) \<in> set (updateLeaderboard cu uname pts pic prev)
        \<and> lb_username (bumpEntry pts pic (prev ! i)) = uname
        \<and> score (bumpEntry pts pic (prev ! i)) = score (prev ! i) + pts)
   \<and> (findIndex (\<lambda>e. lb_username e = uname) prev = None \<and> cu = Some u \<longrightarrow>
        (freshEntry u uname pts pic \<in> set (updateLeaderboard cu uname pts pic prev)
           \<longleftrightarrow> length (filter (\<lambda>e. pts \<le> score e) prev) < 20)
        \<and> score (freshEntry u uname pts pic) = pts
        \<and> (\<forall>e\<in>set (updateLeaderboard cu uname pts pic prev).
              lb_username e = uname \<longrightarrow> e = freshEntry u uname pts pic))"
proof (intro conjI impI)
  show "sorted_wrt (\<lambda>a b. score b \<le> score a) (updateLeaderboard cu uname pts pic prev)"
    by (rule updateLeaderboard_sorted)
  show "length (updateLeaderboard cu uname pts pic prev) \<le> 20"
    by (rule updateLeaderboard_length)
next
  assume h: "findIndex (\<lambda>e. lb_username e = uname) prev = Some i \<and> length prev \<le> 20"
  then show "bumpEntry pts pic (prev ! i) \<in> set (updateLeaderboard cu uname pts pic prev)"
    by (simp add: updateLeaderboard_existing)
  from h have "lb_username (prev ! i) = uname"
    using findIndex_Some [of "\<lambda>e. lb_username e = uname" prev i] by simp
  then show "lb_username (bumpEntry pts pic (prev ! i)) = uname"
    by (simp add: username_bumpEntry)
  show "score (bumpEntry pts pic (prev ! i)) = score (prev ! i) + pts"
    by (rule score_bumpEntry)
next
  assume h: "findIndex (\<lambda>e. lb_username e = uname) prev = None \<and> cu = Some u"
  then show "freshEntry u uname pts pic \<in> set (updateLeaderboard cu uname pts pic prev)
           \<longleftrightarrow> length (filter (\<lambda>e. pts \<le> score e) prev) < 20"
    by (simp add: updateLeaderboard_fresh)
  show "score (freshEntry u uname pts pic) = pts"
    by (simp add: freshEntry_def)
  from h show "\<forall>e\<in>set (updateLeaderboard cu uname pts pic prev).
              lb_username e = uname \<longrightarrow> e = freshEntry u uname pts pic"
    by (auto dest: updateLeaderboard_fresh_only)
qed

theorem updateLeaderboard_sorted_top20_witness:
  "findIndex (\<lambda>e. lb_username e = ''bob'') twoBoard = Some 1 \<and> length twoBoard \<le> 20
   \<and> bumpEntry 5 None (twoBoard ! 1) \<in> set (updateLeaderboard None ''bob'' 5 None twoBoard)
   \<and> score (bumpEntry 5 None (twoBoard ! 1)) = 9
   \<and> findIndex (\<lambda>e. lb_username e = ''zed'') twoBoard = None
   \<and> freshEntry zedUser ''zed'' 3 None
        \<in> set (updateLeaderboard (Some zedUser) ''zed'' 3 None twoBoard)"
proof -
  have h1: "findIndex (\<lambda>e. lb_username e = ''bob'') twoBoard = Some 1 \<and> length twoBoard \<le> 20"
    by (simp add: twoBoard_def)
  have h2: "findIndex (\<lambda>e. lb_username e = ''zed'') twoBoard = None"
    by (simp add: twoBoard_def)
  have h3: "length (filter (\<lambda>e. 3 \<le> score e) twoBoard) < 20"
    by (simp add: twoBoard_def)
  have s: "score (twoBoard ! 1) = 4"
    by (simp add: twoBoard_def)
  from h1 s
    updateLeaderboard_sorted_top20
      [where cu = None and uname = "''bob''" and pts = 5 and pic = None and prev = twoBoard
         and i = 1 and u = zedUser]
  have c1: "bumpEntry 5 None (twoBoard ! 1) \<in> set (updateLeaderboard None ''bob'' 5 None twoBoard)
      \<and> score (bumpEntry 5 None (twoBoard ! 1)) = 9"
    by simp
  from h2 h3
    updateLeaderboard_sorted_top20
      [where cu = "Some zedUser" and uname = "''zed''" and pts = 3 and pic = None
         and prev = twoBoard and i = 0 and u = zedUser]
  have c2: "freshEntry zedUser ''zed'' 3 None
      \<in> set (updateLeaderboard (Some zedUser) ''zed'' 3 None twoBoard)"
    by simp
  from h1 h2 c1 c2 show ?thesis
    by simp
qed

text \<open>
  Claim C1 as stated fails. The board holds twenty users with five points each; \<open>zed\<close>,
  logged in and not on the board, finishes a quiz with no point. The fresh entry is
  sorted behind the twenty and cut off: the resulting board has no entry for \<open>zed\<close>.
\<close>

theorem updateLeaderboard_drops_newcomer:
  "''zed'' \<notin> set (map lb_username fullBoard)
   \<and> ''zed'' \<notin> set (map lb_username (updateLeaderboard (Some zedUser) ''zed'' 0 None fullBoard))"
  by code_simp

section \<open>Properties of the badges\<close>

lemma awardLoop_eq:
  "awardLoop defs held upd q now earned =
     earned @ map (\<lambda>(k, d). newBadge k d now)
                (filter (\<lambda>(k, d). \<not> hasBadge held k \<and> criteria d upd q) defs)"
  by (induction defs held upd q now earned rule: awardLoop.induct) simp_all

lemma awardBadges_eq:
  "awardBadges defs (Some u) sc n tp now =
     map (\<lambda>(k, d). newBadge k d now)
       (filter (\<lambda>(k, d). \<not> hasBadge (badges (stats u)) k
                  \<and> criteria d (updatedStats (stats u) sc n tp)
                       \<lparr>q_score = sc, q_questionCount = n, q_topic = tp\<rparr>) defs)"
  by (simp add: awardBadges_def awardLoop_eq)

lemma hasBadge_iff: "hasBadge held k \<longleftrightarrow> k \<in> set (map badge_id held)"
  by (auto simp: hasBadge_def list_ex_iff)

lemma badge_id_newBadge: "badge_id (newBadge k d now) = k"
  by (simp add: newBadge_def)

lemma awardBadges_ids:
  "map badge_id (awardBadges defs (Some u) sc n tp now) =
     map fst (filter (\<lambda>(k, d). \<not> hasBadge (badges (stats u)) k
                  \<and> criteria d (updatedStats (stats u) sc n tp)
                       \<lparr>q_score = sc, q_questionCount = n, q_topic = tp\<rparr>) defs)"
  by (simp add: awardBadges_eq badge_id_newBadge case_prod_unfold comp_def)

lemma awardBadges_not_held:
  "b \<in> set (awardBadges defs (Some u) sc n tp now) \<Longrightarrow>
     badge_id b \<notin> set (map badge_id (badges (stats u)))"
  by (auto simp: awardBadges_eq hasBadge_iff badge_id_newBadge)

lemma awardBadges_distinct:
  "distinct (map fst defs) \<Longrightarrow> distinct (map badge_id (awardBadges defs cu sc n tp now))"
proof (cases cu)
  case None
  then show ?thesis by (simp add: awardBadges_def)
next
  case (Some u)
  assume "distinct (map fst defs)"
  then show ?thesis
    unfolding Some awardBadges_ids by (rule distinct_map_filter)
qed

lemma append_earned_distinct:
  assumes "distinct (map fst defs)" and "distinct (map badge_id (badges (stats u)))"
  shows "distinct (map badge_id (badges (stats u) @ awardBadges defs (Some u) sc n tp now))"
proof -
  have "distinct (map badge_id (awardBadges defs (Some u) sc n tp now))"
    using assms(1) by (rule awardBadges_distinct)
  moreover have "set (map badge_id (badges (stats u)))
      \<inter> set (map badge_id (awardBadges defs (Some u) sc n tp now)) = {}"
    by (auto simp: awardBadges_ids hasBadge_iff)
  ultimately show ?thesis
    using assms(2) by simp
qed

lemma badges_quizStatsUpdate:
  "badges (quizStatsUpdate tp sc n earned st) = badges st @ earned"
  by (simp add: quizStatsUpdate_def Let_def)

lemma user_id_updateUserStats: "map user_id (updateUserStats cid f us) = map user_id us"
  by (simp add: updateUserStats_def)

lemma user_id_handleActivityCompletion:
  "map user_id (handleActivityCompletion tz clock cu cid us) = map user_id us"
  by (simp add: handleActivityCompletion_def Let_def user_id_updateUserStats split: option.split)

lemma badgesDistinct_map:
  "badgesDistinct us = list_all (\<lambda>bs. distinct (map badge_id bs)) (map (\<lambda>u. badges (stats u)) us)"
  by (simp add: badgesDistinct_def list_all_iff)

lemma badges_handleActivityCompletion:
  "map (\<lambda>u. badges (stats u)) (handleActivityCompletion tz clock cu cid us) =
     map (\<lambda>u. badges (stats u)) us"
  by (simp add: handleActivityCompletion_def Let_def updateUserStats_def comp_def
      split: option.split)

lemma badgesDistinct_handleActivityCompletion:
  "badgesDistinct (handleActivityCompletion tz clock cu cid us) = badgesDistinct us"
  by (simp add: badgesDistinct_map badges_handleActivityCompletion)

lemma currentUser_unique:
  assumes "distinct (map user_id us)" and "u \<in> set us" and "Some (user_id u) = cid"
  shows "currentUser us cid = Some u"
proof -
  from assms(2,3) obtain v where v: "find (\<lambda>w. user_id w = user_id u) us = Some v"
    by (cases "find (\<lambda>w. user_id w = user_id u) us") (auto simp: find_None_iff)
  then have "v \<in> set us" and "user_id v = user_id u"
    by (auto simp: find_Some_iff)
  with assms(1,2) have "v = u"
    by (meson distinct_map inj_onD)
  with v assms(3) show ?thesis
    by (auto simp: currentUser_def)
qed

lemma quizCompletedUsers_ids:
  "map user_id (quizCompletedUsers defs tz cu cid tp sc n now clock us) = map user_id us"
  by (simp add: quizCompletedUsers_def Let_def user_id_handleActivityCompletion
      user_id_updateUserStats split: option.split)

lemma quizCompletedUsers_badgesDistinct:
  assumes defs: "distinct (map fst defs)" and ids: "distinct (map user_id us)"
    and inv: "badgesDistinct us"
  shows "badgesDistinct (quizCompletedUsers defs tz (currentUser us cid) cid tp sc n now clock us)"
proof (cases "currentUser us cid")
  case None
  with inv show ?thesis by (simp add: quizCompletedUsers_def)
next
  case (Some u)
  have upd: "badgesDistinct (updateUserStats cid
         (quizStatsUpdate tq sc n (awardBadges defs (Some u) sc n tq now)) us)" for tq
    unfolding badgesDistinct_def list_all_iff
  proof
    fix w
    assume "w \<in> set (updateUserStats cid
         (quizStatsUpdate tq sc n (awardBadges defs (Some u) sc n tq now)) us)"
    then obtain v where v: "v \<in> set us"
      and w: "w = v \<or> (Some (user_id v) = cid \<and>
             w = v\<lparr>stats := quizStatsUpdate tq sc n (awardBadges defs (Some u) sc n tq now) (stats v)\<rparr>)"
      by (auto simp: updateUserStats_def split: if_splits)
    from inv v have dv: "distinct (map badge_id (badges (stats v)))"
      by (simp add: badgesDistinct_def list_all_iff)
    from w show "distinct (map badge_id (badges (stats w)))"
    proof
      assume "w = v"
      with dv show ?thesis by simp
    next
      assume h: "Some (user_id v) = cid \<and>
             w = v\<lparr>stats := quizStatsUpdate tq sc n (awardBadges defs (Some u) sc n tq now) (stats v)\<rparr>"
      with ids v Some have "v = u"
        using currentUser_unique [of us v cid] by simp
      with h dv defs show ?thesis
        using append_earned_distinct [of defs u sc n tq now]
        by (simp add: badges_quizStatsUpdate)
    qed
  qed
  show ?thesis
    using inv upd
    by (simp add: Some quizCompletedUsers_def Let_def badgesDistinct_handleActivityCompletion
        split: option.split)
qed

lemma map_of_updatedStats:
  "map_of (topicPerformance (updatedStats st sc n tp)) =
     (map_of (topicPerformance st))
       (tp \<mapsto> \<lparr>correct = topicCorrect st tp + sc, total = topicTotal st tp + n\<rparr>)"
  by (simp add: updatedStats_def update_conv')

text \<open>
  Claim C4. For a current user, \<open>awardBadges\<close> returns, in the key order of
  \<open>BADGE_DEFINITIONS\<close>, one new badge for every definition whose key the user does not
  hold and whose criterion accepts the updated stats (together with the quiz result); a
  badge kind is among the returned ids exactly when it has such a definition. The updated
  stats are the stored stats with \<open>quizzesCompleted\<close> and \<open>quizzesAttempted\<close> one higher
  and the topic's \<open>correct\<close> and \<open>total\<close> raised by the score and the question count
  (counted from zero for a new topic), all else unchanged. Every returned id is a key of
  the definitions and one of the five badge types.
\<close>

theorem awardBadges_exactly_when:
  "(cu = Some u \<longrightarrow>
      awardBadges defs cu sc n tp now =
        map (\<lambda>(k, d). newBadge k d now)
          (filter (\<lambda>(k, d). k \<notin> set (map badge_id (badges (stats u)))
                     \<and> criteria d (updatedStats (stats u) sc n tp)
                          \<lparr>q_score = sc, q_questionCount = n, q_topic = tp\<rparr>) defs)
      \<and> (k \<in> set (map badge_id (awardBadges defs cu sc n tp now)) \<longleftrightarrow>
           k \<notin> set (map badge_id (badges (stats u)))
           \<and> (\<exists>d. (k, d) \<in> set defs
                  \<and> criteria d (updatedStats (stats u) sc n tp)
                       \<lparr>q_score = sc, q_questionCount = n, q_topic = tp\<rparr>))
      \<and> set (map badge_id (awardBadges defs cu sc n tp now))
           \<subseteq> set (map fst defs) \<inter> {QUIZ_NOVICE, QUIZ_ADEPT, QUIZ_MASTER, TOPIC_ACE, PERFECT_SCORE})
   \<and> quizzesCompleted (updatedStats st sc n tp) = quizzesCompleted st + 1
   \<and> quizzesAttempted (updatedStats st sc n tp) = quizzesAttempted st + 1
   \<and> map_of (topicPerformance (updatedStats st sc n tp)) tp =
        Some \<lparr>correct = (case map_of (topicPerformance st) tp of None \<Rightarrow> 0 | Some p \<Rightarrow> correct p) + sc,
              total = (case map_of (topicPerformance st) tp of None \<Rightarrow> 0 | Some p \<Rightarrow> total p) + n\<rparr>
   \<and> (t \<noteq> tp \<longrightarrow>
        map_of (topicPerformance (updatedStats st sc n tp)) t = map_of (topicPerformance st) t)
   \<and> updatedStats st sc n tp =
        st\<lparr>quizzesCompleted := quizzesCompleted st + 1,
           quizzesAttempted := quizzesAttempted st + 1,
           topicPerformance := topicPerformance (updatedStats st sc n tp)\<rparr>"
proof (intro conjI impI)
  assume cu: "cu = Some u"
  let ?P = "\<lambda>(k, d). k \<notin> set (map badge_id (badges (stats u)))
                     \<and> criteria d (updatedStats (stats u) sc n tp)
                          \<lparr>q_score = sc, q_questionCount = n, q_topic = tp\<rparr>"
  show eq: "awardBadges defs cu sc n tp now = map (\<lambda>(k, d). newBadge k d now) (filter ?P defs)"
    unfolding cu awardBadges_eq hasBadge_iff by simp
  have ids: "map badge_id (awardBadges defs cu sc n tp now) = map fst (filter ?P defs)"
    unfolding eq by (simp add: badge_id_newBadge case_prod_unfold comp_def)
  show "k \<in> set (map badge_id (awardBadges defs cu sc n tp now)) \<longleftrightarrow>
           k \<notin> set (map badge_id (badges (stats u)))
           \<and> (\<exists>d. (k, d) \<in> set defs
                  \<and> criteria d (updatedStats (stats u) sc n tp)
                       \<lparr>q_score = sc, q_questionCount = n, q_topic = tp\<rparr>)"
    unfolding ids by force
  have "set (map fst (filter ?P defs)) \<subseteq> set (map fst defs)"
    by auto
  moreover have "x \<in> {QUIZ_NOVICE, QUIZ_ADEPT, QUIZ_MASTER, TOPIC_ACE, PERFECT_SCORE}" for x
    by (cases x) simp_all
  ultimately show "set (map badge_id (awardBadges defs cu sc n tp now))
           \<subseteq> set (map fst defs) \<inter> {QUIZ_NOVICE, QUIZ_ADEPT, QUIZ_MASTER, TOPIC_ACE, PERFECT_SCORE}"
    unfolding ids by blast
next
  show "quizzesCompleted (updatedStats st sc n tp) = quizzesCompleted st + 1"
    by (simp add: updatedStats_def)
  show "quizzesAttempted (updatedStats st sc n tp) = quizzesAttempted st + 1"
    by (simp add: updatedStats_def)
  show "map_of (topicPerformance (updatedStats st sc n tp)) tp =
        Some \<lparr>correct = (case map_of (topicPerformance st) tp of None \<Rightarrow> 0 | Some p \<Rightarrow> correct p) + sc,
              total = (case map_of (topicPerformance st) tp of None \<Rightarrow> 0 | Some p \<Rightarrow> total p) + n\<rparr>"
    by (simp add: map_of_updatedStats topicCorrect_def topicTotal_def)
  show "updatedStats st sc n tp =
        st\<lparr>quizzesCompleted := quizzesCompleted st + 1,
           quizzesAttempted := quizzesAttempted st + 1,
           topicPerformance := topicPerformance (updatedStats st sc n tp)\<rparr>"
    by (simp add: updatedStats_def)
next
  assume "t \<noteq> tp"
  then show "map_of (topicPerformance (updatedStats st sc n tp)) t = map_of (topicPerformance st) t"
    by (simp add: map_of_updatedStats)
qed

theorem awardBadges_exactly_when_witness:
  "map badge_id (awardBadges exampleDefinitions (Some zedUser) 2 2 ''Light'' ''2024-05-02T10:00:00.000Z'')
     = [QUIZ_NOVICE, PERFECT_SCORE]
   \<and> map badge_id (awardBadges exampleDefinitions (Some zedUser) 1 2 ''Light'' ''2024-05-02T10:00:00.000Z'')
     = [QUIZ_NOVICE]
   \<and> map_of (topicPerformance (updatedStats initialStats 1 2 ''Light'')) ''Sound'' = None"
proof -
  have neq: "''Sound'' \<noteq> ''Light''"
    by simp
  from
    awardBadges_exactly_when [where cu = "Some zedUser" and u = zedUser and defs = exampleDefinitions
      and sc = 2 and n = 2 and tp = "''Light''" and now = "''2024-05-02T10:00:00.000Z''"]
  have a: "map badge_id (awardBadges exampleDefinitions (Some zedUser) 2 2 ''Light''
             ''2024-05-02T10:00:00.000Z'') = [QUIZ_NOVICE, PERFECT_SCORE]"
    by (simp add: exampleDefinitions_def zedUser_def newUser_def initialStats_def
        updatedStats_def newBadge_def)
  from
    awardBadges_exactly_when [where cu = "Some zedUser" and u = zedUser and defs = exampleDefinitions
      and sc = 1 and n = 2 and tp = "''Light''" and now = "''2024-05-02T10:00:00.000Z''"]
  have b: "map badge_id (awardBadges exampleDefinitions (Some zedUser) 1 2 ''Light''
             ''2024-05-02T10:00:00.000Z'') = [QUIZ_NOVICE]"
    by (simp add: exampleDefinitions_def zedUser_def newUser_def initialStats_def
        updatedStats_def newBadge_def)
  from neq
    awardBadges_exactly_when [where st = initialStats and sc = 1 and n = 2 and tp = "''Light''"
      and t = "''Sound''"]
  have c: "map_of (topicPerformance (updatedStats initialStats 1 2 ''Light'')) ''Sound'' = None"
    by (simp add: initialStats_def)
  from a b c show ?thesis
    by simp
qed

text \<open>
  Claim C3 fails on the code. On the last question \<open>handleAnswer\<close> ran twice from one
  render, so two callbacks are pending that hold the same current user \<open>zed\<close>, who has
  no badge. For each of them \<open>awardBadges\<close> returns only badges that this current user
  does not hold, the same two both times. The first callback appends them to the stored
  stats, the second appends them again: the stored badge list of \<open>zed\<close> holds each of the
  two ids twice.
\<close>

theorem stale_callbacks_award_badges_twice:
  "map badge_id
     (awardBadges exampleDefinitions (t_currentUser zedLastQuestion) 2 2 ''Light''
        (t_now zedLastQuestion)) = [QUIZ_NOVICE, PERFECT_SCORE]
   \<and> map badgeIds (runTimeouts exampleDefinitions kolkata [zedLastQuestion] [annUser, zedUser])
       = [[], [QUIZ_NOVICE, PERFECT_SCORE]]
   \<and> map badgeIds
        (runTimeouts exampleDefinitions kolkata [zedLastQuestion, zedLastQuestion]
           [annUser, zedUser])
       = [[], [QUIZ_NOVICE, PERFECT_SCORE, QUIZ_NOVICE, PERFECT_SCORE]]
   \<and> \<not> badgesDistinct
         (runTimeouts exampleDefinitions kolkata [zedLastQuestion, zedLastQuestion]
            [annUser, zedUser])"
  by code_simp

section \<open>Properties of the quiz score\<close>

lemma length_setAnswer:
  "length (setAnswer ua i a) = max (length ua) (Suc i)"
  by (auto simp: setAnswer_def Let_def)

lemma setAnswer_at:
  "setAnswer ua i a ! i = (case a of None \<Rightarrow> Null | Some t \<Rightarrow> Answered t)"
  by (auto simp: setAnswer_def Let_def nth_append)

lemma isCorrect_simps:
  "isCorrect (Hole, q) = False" "isCorrect (Null, q) = False"
  "isCorrect (Answered t, q) = (t = answer q)"
  by (simp_all add: isCorrect_def)

lemma countCorrect_zip:
  "index + length as \<le> length qs \<Longrightarrow>
     countCorrect qs index as acc = Inr (acc + length (filter isCorrect (zip as (drop index qs))))"
proof (induction as arbitrary: index acc)
  case Nil
  then show ?case by simp
next
  case (Cons r rs)
  from Cons.prems have lt: "index < length qs" and rest: "Suc index + length rs \<le> length qs"
    by simp_all
  from lt have dr: "drop index qs = qs ! index # drop (Suc index) qs"
    by (simp add: Cons_nth_drop_Suc)
  show ?case
  proof (cases r)
    case Hole
    then show ?thesis
      using Cons.IH [OF rest] by (simp add: dr isCorrect_simps)
  next
    case Null
    then show ?thesis
      using Cons.IH [OF rest] lt by (simp add: dr isCorrect_simps)
  next
    case (Answered t)
    then show ?thesis
      using Cons.IH [OF rest] lt by (auto simp: dr isCorrect_simps)
  qed
qed

lemma correct_le_answered:
  "length (filter isCorrect (zip rs qs)) \<le> length (filter (\<lambda>r. r \<noteq> Null \<and> r \<noteq> Hole) rs)"
proof (induction rs arbitrary: qs)
  case Nil
  then show ?case by simp
next
  case (Cons r rs)
  show ?case
  proof (cases qs)
    case Nil
    then show ?thesis by simp
  next
    case (Cons q qs')
    from Cons.IH [of qs'] show ?thesis
      unfolding Cons by (cases r) (simp_all add: isCorrect_simps le_SucI)
  qed
qed

text \<open>
  Claim C5. The last question of a non-empty quiz is answered, the answers recorded so
  far being no more than the questions. Then \<open>handleAnswer\<close> finishes the quiz with a
  score equal to the number of positions at which the recorded answer is a string equal
  to the \<open>answer\<close> field of the question at that position. The score is at most the
  number of questions and at most the number of answered positions: a position holding
  \<open>null\<close> is never counted, and an answer of \<open>null\<close> (the timer ran out) is recorded as
  \<open>null\<close>.
\<close>

theorem final_score_counts_matching_answers:
  "qs \<noteq> [] \<and> idx = length qs - 1 \<and> length ua \<le> length qs \<longrightarrow>
     handleAnswer qs ua idx a
       = Inr (QuizFinished (length (filter isCorrect (zip (setAnswer ua idx a) qs))))
     \<and> length (filter isCorrect (zip (setAnswer ua idx a) qs))
         = card {i. i < length qs \<and> setAnswer ua idx a ! i = Answered (answer (qs ! i))}
     \<and> length (filter isCorrect (zip (setAnswer ua idx a) qs)) \<le> length qs
     \<and> length (filter isCorrect (zip (setAnswer ua idx a) qs))
         \<le> length (filter (\<lambda>r. r \<noteq> Null \<and> r \<noteq> Hole) (setAnswer ua idx a))
     \<and> (\<forall>i<length qs. setAnswer ua idx a ! i = Null \<longrightarrow>
           i \<notin> {i. i < length qs \<and> setAnswer ua idx a ! i = Answered (answer (qs ! i))})
     \<and> (a = None \<longrightarrow> setAnswer ua idx a ! idx = Null)"
proof (intro impI)
  assume h: "qs \<noteq> [] \<and> idx = length qs - 1 \<and> length ua \<le> length qs"
  let ?new = "setAnswer ua idx a"
  from h have len: "length ?new = length qs"
    by (cases qs) (simp_all add: length_setAnswer)
  from h have last: "\<not> int idx < int (length qs) - 1"
    by simp
  from len have "countCorrect qs 0 ?new 0 = Inr (0 + length (filter isCorrect (zip ?new (drop 0 qs))))"
    by (intro countCorrect_zip) simp
  with last have out: "handleAnswer qs ua idx a = Inr (QuizFinished (length (filter isCorrect (zip ?new qs))))"
    by (simp add: handleAnswer_def)
  have "length (filter isCorrect (zip ?new qs))
      = card {i. i < length (zip ?new qs) \<and> isCorrect (zip ?new qs ! i)}"
    by (rule length_filter_conv_card)
  also have "{i. i < length (zip ?new qs) \<and> isCorrect (zip ?new qs ! i)}
      = {i. i < length qs \<and> ?new ! i = Answered (answer (qs ! i))}"
    using len by (auto simp: isCorrect_def)
  finally have card: "length (filter isCorrect (zip ?new qs))
      = card {i. i < length qs \<and> ?new ! i = Answered (answer (qs ! i))}" .
  have "length (filter isCorrect (zip ?new qs)) \<le> length (zip ?new qs)"
    by (rule length_filter_le)
  with len have le: "length (filter isCorrect (zip ?new qs)) \<le> length qs"
    by simp
  have null: "a = None \<longrightarrow> ?new ! idx = Null"
    by (simp add: setAnswer_at)
  from out card le null correct_le_answered [of ?new qs]
  show "handleAnswer qs ua idx a = Inr (QuizFinished (length (filter isCorrect (zip ?new qs))))
     \<and> length (filter isCorrect (zip ?new qs))
         = card {i. i < length qs \<and> ?new ! i = Answered (answer (qs ! i))}
     \<and> length (filter isCorrect (zip ?new qs)) \<le> length qs
     \<and> length (filter isCorrect (zip ?new qs))
         \<le> length (filter (\<lambda>r. r \<noteq> Null \<and> r \<noteq> Hole) ?new)
     \<and> (\<forall>i<length qs. ?new ! i = Null \<longrightarrow>
           i \<notin> {i. i < length qs \<and> ?new ! i = Answered (answer (qs ! i))})
     \<and> (a = None \<longrightarrow> ?new ! idx = Null)"
    by simp
qed

theorem final_score_counts_matching_answers_witness:
  "exampleQuestions \<noteq> [] \<and> (1::nat) = length exampleQuestions - 1
   \<and> length [Answered ''4'', Null] \<le> length exampleQuestions
   \<and> handleAnswer exampleQuestions [Answered ''4'', Null] 1 None = Inr (QuizFinished 1)
   \<and> handleAnswer exampleQuestions [Answered ''4'', Null] 1 (Some ''True'') = Inr (QuizFinished 2)
   \<and> handleAnswer exampleQuestions [Answered ''3'', Null] 1 (Some ''False'') = Inr (QuizFinished 0)"
proof -
  have h: "exampleQuestions \<noteq> [] \<and> (1::nat) = length exampleQuestions - 1
      \<and> length [Answered ''4'', Null] \<le> length exampleQuestions
      \<and> length [Answered ''3'', Null] \<le> length exampleQuestions"
    by (simp add: exampleQuestions_def)
  from h
    final_score_counts_matching_answers [where qs = exampleQuestions and idx = 1
      and ua = "[Answered ''4'', Null]" and a = None]
  have a: "handleAnswer exampleQuestions [Answered ''4'', Null] 1 None = Inr (QuizFinished 1)"
    by (simp add: exampleQuestions_def setAnswer_def isCorrect_def)
  from h
    final_score_counts_matching_answers [where qs = exampleQuestions and idx = 1
      and ua = "[Answered ''4'', Null]" and a = "Some ''True''"]
  have b: "handleAnswer exampleQuestions [Answered ''4'', Null] 1 (Some ''True'') = Inr (QuizFinished 2)"
    by (simp add: exampleQuestions_def setAnswer_def isCorrect_def)
  from h
    final_score_counts_matching_answers [where qs = exampleQuestions and idx = 1
      and ua = "[Answered ''3'', Null]" and a = "Some ''False''"]
  have c: "handleAnswer exampleQuestions [Answered ''3'', Null] 1 (Some ''False'') = Inr (QuizFinished 0)"
    by (simp add: exampleQuestions_def setAnswer_def isCorrect_def)
  from h a b c show ?thesis
    by simp
qed

section \<open>Properties of the activity streak\<close>

lemma find_map_same_id:
  assumes "\<And>w. user_id (f w) = user_id w"
  shows "find (\<lambda>w. user_id w = i) (map f us) = map_option f (find (\<lambda>w. user_id w = i) us)"
  by (induction us) (simp_all add: assms)

lemma currentUser_map_same_id:
  assumes "\<And>w. user_id (f w) = user_id w"
  shows "currentUser (map f us) cid = map_option f (currentUser us cid)"
  by (cases cid) (simp_all add: currentUser_def find_map_same_id [of f, OF assms])

lemma currentUser_id:
  "currentUser us cid = Some u \<Longrightarrow> Some (user_id u) = cid"
  by (cases cid) (auto simp: currentUser_def find_Some_iff)

text \<open>
  In a time zone without daylight time the date computed for yesterday is the day before
  today.
\<close>

lemma yesterdayStr_without_daylight_time:
  assumes "daylightPeriods tz = []"
  shows "yesterdayStr tz clock = isoDate (clock div msPerDay - 1)"
proof -
  have off: "offsetAtUtc tz t = standardOffset tz" "offsetAtLocal tz t = standardOffset tz" for t
    using assms by (simp_all add: offsetAtUtc_def offsetAtLocal_def inDaylight_def)
  have "((clock div msPerDay) * msPerDay - msPerDay) div msPerDay = clock div msPerDay - 1"
    by (simp add: msPerDay_def)
  then show ?thesis
    by (simp add: yesterdayStr_def off Let_def)
qed

text \<open>
  What \<open>handleActivityCompletion\<close> does for a logged-in user, in terms of the two date
  strings it computes.
\<close>

lemma handleActivityCompletion_logged_in:
  assumes "currentUser us cid = Some u" and "truthy cid"
  shows "handleActivityCompletion tz clock (Some u) cid us =
     (if lastActivityDate (stats u) = todayStr clock then us
      else map (\<lambda>w. if Some (user_id w) = cid
                      then w\<lparr>stats := (stats w)
                             \<lparr>currentStreak :=
                                (if lastActivityDate (stats u) = yesterdayStr tz clock
                                 then currentStreak (stats u) + 1 else 1),
                              lastActivityDate := todayStr clock\<rparr>\<rparr>
                      else w) us)"
  using assms by (auto simp: handleActivityCompletion_def updateUserStats_def Let_def)

text \<open>
  Claim C6 fails on the code. The browser is in New York and it is Monday the fourth of
  November 2024; the clocks went back the day before. \<open>bob\<close>, on a streak of three
  days, was last active on Sunday the third, which is yesterday. The date the code
  computes for yesterday is Saturday the second, so the streak of \<open>bob\<close> becomes 1 and not
  4, while a user last active on Saturday, two days ago, gets 4. In a browser on UTC the
  same call gives \<open>bob\<close> the streak 4.
\<close>

theorem streak_lost_after_clocks_go_back:
  "todayStr mondayAfternoon = ''2024-11-04''
   \<and> currentUser [annUser, bobUser] (Some ''id-bob'') = Some bobUser
   \<and> streakAndDate bobUser = (3, ''2024-11-03'')
   \<and> yesterdayStr newYork mondayAfternoon = ''2024-11-02''
   \<and> map streakAndDate
        (handleActivityCompletion newYork mondayAfternoon (Some bobUser) (Some ''id-bob'')
           [annUser, bobUser])
       = [(0, ''''), (1, ''2024-11-04'')]
   \<and> map streakAndDate
        (handleActivityCompletion newYork mondayAfternoon (Some bobSaturday) (Some ''id-bob'')
           [annUser, bobSaturday])
       = [(0, ''''), (4, ''2024-11-04'')]
   \<and> yesterdayStr utcZone mondayAfternoon = ''2024-11-03''
   \<and> map streakAndDate
        (handleActivityCompletion utcZone mondayAfternoon (Some bobUser) (Some ''id-bob'')
           [annUser, bobUser])
       = [(0, ''''), (4, ''2024-11-04'')]"
  by code_simp

section \<open>Properties of the API error handler\<close>

lemma str_includes_iff:
  "str_includes hay needle \<longleftrightarrow> (\<exists>pre post. hay = pre @ needle @ post)"
proof (induction hay)
  case Nil
  show ?case by simp
next
  case (Cons c cs)
  have "(\<exists>pre post. c # cs = pre @ needle @ post) \<longleftrightarrow>
        (\<exists>post. c # cs = needle @ post) \<or> (\<exists>pre post. cs = pre @ needle @ post)"
  proof
    assume "\<exists>pre post. c # cs = pre @ needle @ post"
    then obtain pre post where e: "c # cs = pre @ needle @ post"
      by blast
    show "(\<exists>post. c # cs = needle @ post) \<or> (\<exists>pre post. cs = pre @ needle @ post)"
    proof (cases pre)
      case Nil
      with e show ?thesis by auto
    next
      case (Cons p ps)
      with e have "cs = ps @ needle @ post" by simp
      then show ?thesis by blast
    qed
  next
    assume "(\<exists>post. c # cs = needle @ post) \<or> (\<exists>pre post. cs = pre @ needle @ post)"
    then show "\<exists>pre post. c # cs = pre @ needle @ post"
    proof
      assume "\<exists>post. c # cs = needle @ post"
      then obtain post where "c # cs = [] @ needle @ post" by auto
      then show ?thesis by blast
    next
      assume "\<exists>pre post. cs = pre @ needle @ post"
      then obtain pre post where "c # cs = (c # pre) @ needle @ post" by auto
      then show ?thesis by blast
    qed
  qed
  with Cons.IH show ?case
    by (simp add: prefix_def)
qed

lemma fst_withApiErrorHandler:
  "truthyString (fst (withApiErrorHandler r s)) = imageOf r"
  by (cases r) (simp_all add: withApiErrorHandler_def truthyString_def imageOf_def)

lemma withApiErrorHandler_thrown:
  "withApiErrorHandler (Inl e) s =
     (None, s\<lparr>apiError := Some (displayedMessage (errorMessage e)), isLoading := False\<rparr>)"
  by (simp add: withApiErrorHandler_def)

lemma truthyString_None: "truthyString None = None"
  by (simp add: truthyString_def)

text \<open>The steps that the loop returns: each step with what its image call contributed.\<close>

lemma fst_visualsLoop:
  "fst (visualsLoop word withImage images n i sts acc s) =
     acc @ map (\<lambda>(j, st). withImage st (imageOf (images j))) (enumerate i sts)"
proof (induction sts arbitrary: i acc s)
  case Nil
  show ?case by simp
next
  case (Cons st rest)
  show ?case
    by (simp add: Cons.IH Let_def split_beta fst_withApiErrorHandler)
qed

lemmas handler_defs =
  handleGenerateDiagramIdeas_def handleGenerateDiagram_def handleGenerateQuiz_def
  handleGenerateNotes_def handleGenerateDeepDive_def generateAndSetStudyPlan_def
  handleGenerateVirtualLab_def handleGenerateRealWorldExamples_def handleGenerateAIStory_def
  handleGenerateScienceFairIdeas_def handleGenerateScienceFairPlan_def handleExplainImage_def

lemma content_call_thrown:
  "sameScreenAndContent s (handleGenerateDiagramIdeas newIds (Inl e) s)"
  "sameScreenAndContent s (handleGenerateDiagram env idea (Inl e) s)"
  "sameScreenAndContent s (handleGenerateQuiz env d c t mode (Inl e) s)"
  "sameScreenAndContent s (handleGenerateNotes env (Inl e) s)"
  "sameScreenAndContent s (handleGenerateDeepDive env (Inl e) s)"
  "sameScreenAndContent s (generateAndSetStudyPlan (Inl e) s)"
  "sameScreenAndContent s (handleGenerateVirtualLab env (Inl e) images s)"
  "sameScreenAndContent s (handleGenerateRealWorldExamples env (Inl e) images s)"
  "sameScreenAndContent s (handleGenerateAIStory env (Inl e) s)"
  "sameScreenAndContent s (handleGenerateScienceFairIdeas env newIds (Inl e) s)"
  "sameScreenAndContent s (handleGenerateScienceFairPlan pidea (Inl e) images s)"
  "sameScreenAndContent s (handleExplainImage env (Inl e) s)"
  by (simp_all add: handler_defs withApiErrorHandler_thrown truthyString_None logEntry_def
      activityCompleted_def sameScreenAndContent_def Let_def split: option.split prod.split)

lemma image_calls_virtualLab:
  assumes "inputPrompt s \<noteq> []"
  shows "gameState (handleGenerateVirtualLab env (Inr sts) images s) = VIRTUAL_LAB_DISPLAY"
    and "virtualLabSteps (handleGenerateVirtualLab env (Inr sts) images s) =
           map (\<lambda>(i, st). st\<lparr>vl_image := imageOf (images i)\<rparr>) (enumerate 0 sts)"
  using assms fst_visualsLoop [of "''step''" "\<lambda>st img. st\<lparr>vl_image := img\<rparr>" images "length sts" 0 sts "[]"]
  by (simp_all add: handleGenerateVirtualLab_def withApiErrorHandler_def Let_def split_beta)

lemma image_calls_realWorld:
  assumes "truthy (topic s)"
  shows "gameState (handleGenerateRealWorldExamples env (Inr exs) images s)
           = REAL_WORLD_CONNECTIONS_DISPLAY"
    and "realWorldExamples (handleGenerateRealWorldExamples env (Inr exs) images s) =
           map (\<lambda>(i, ex). ex\<lparr>rw_image := imageOf (images i)\<rparr>) (enumerate 0 exs)"
  using assms fst_visualsLoop [of "''example''" "\<lambda>ex img. ex\<lparr>rw_image := img\<rparr>" images "length exs" 0 exs "[]"]
  by (auto simp: handleGenerateRealWorldExamples_def withApiErrorHandler_def Let_def split_beta
      truthy_def truthyString_def split: option.splits)

lemma image_calls_sciencePlan:
  assumes "inputPrompt s \<noteq> []"
  shows "gameState (handleGenerateScienceFairPlan pidea (Inr sts) images s) = SCIENCE_FAIR_BUDDY_PLAN"
    and "scienceFairProjectPlan (handleGenerateScienceFairPlan pidea (Inr sts) images s) =
           map (\<lambda>(i, st). st\<lparr>sf_image := imageOf (images i)\<rparr>) (enumerate 0 sts)"
  using assms fst_visualsLoop [of "''step''" "\<lambda>st img. st\<lparr>sf_image := img\<rparr>" images "length sts" 0 sts "[]"]
  by (simp_all add: handleGenerateScienceFairPlan_def withApiErrorHandler_def Let_def split_beta)

lemma topicAndGrade_Some:
  "truthy (topic s) \<and> grade s \<noteq> None \<and> grade s \<noteq> Some 0 \<Longrightarrow>
     \<exists>t g. topicAndGrade s = Some (t, g)"
  by (auto simp: topicAndGrade_def truthy_def split: option.splits)

lemma handleGenerateNotes_thrown:
  assumes "truthy (topic s) \<and> grade s \<noteq> None \<and> grade s \<noteq> Some 0"
  shows "apiError (handleGenerateNotes env (Inl e) s) = Some (displayedMessage (errorMessage e))"
    and "isLoading (handleGenerateNotes env (Inl e) s) = False"
  using topicAndGrade_Some [OF assms]
  by (auto simp: handleGenerateNotes_def withApiErrorHandler_thrown)

text \<open>
  Claim C7, as the code has it. When the awaited call has thrown, \<open>withApiErrorHandler\<close>
  returns \<open>null\<close>, clears the loading flag and stores a message: the error's own message,
  the fixed text about the API key when that message contains "API key not valid", and a
  generic text when the thrown value is not an \<open>Error\<close>. When the call that throws is
  the one that yields a handler's content, each of the twelve handlers leaves the screen
  and all generated content as they were; \<open>handleGenerateNotes\<close>, when topic and grade
  were chosen, ends showing that message and not loading. The image calls are different.
  When the steps of a virtual lab, the real-world examples or the steps of a project plan
  have been generated, the handler stores them and moves to the display screen whatever
  the image calls do: a step whose image call threw, or yielded an empty string, is kept
  without an image.
\<close>

theorem thrown_content_call_keeps_screen:
  "withApiErrorHandler (Inl e) s =
     (None, s\<lparr>apiError := Some (displayedMessage (errorMessage e)), isLoading := False\<rparr>)
   \<and> errorMessage (ErrorObject m) = m
   \<and> errorMessage OtherValue = ''An unexpected error occurred.''
   \<and> ((\<exists>pre post. m = pre @ ''API key not valid'' @ post) \<longrightarrow>
        displayedMessage m = ''The provided API Key is not valid. Please check the configuration.'')
   \<and> (\<not> (\<exists>pre post. m = pre @ ''API key not valid'' @ post) \<longrightarrow> displayedMessage m = m)
   \<and> sameScreenAndContent s (handleGenerateDiagramIdeas newIds (Inl e) s)
   \<and> sameScreenAndContent s (handleGenerateDiagram env idea (Inl e) s)
   \<and> sameScreenAndContent s (handleGenerateQuiz env dif cnt tim mode (Inl e) s)
   \<and> sameScreenAndContent s (handleGenerateNotes env (Inl e) s)
   \<and> sameScreenAndContent s (handleGenerateDeepDive env (Inl e) s)
   \<and> sameScreenAndContent s (generateAndSetStudyPlan (Inl e) s)
   \<and> sameScreenAndContent s (handleGenerateVirtualLab env (Inl e) images s)
   \<and> sameScreenAndContent s (handleGenerateRealWorldExamples env (Inl e) images s)
   \<and> sameScreenAndContent s (handleGenerateAIStory env (Inl e) s)
   \<and> sameScreenAndContent s (handleGenerateScienceFairIdeas env newIds (Inl e) s)
   \<and> sameScreenAndContent s (handleGenerateScienceFairPlan pidea (Inl e) images s)
   \<and> sameScreenAndContent s (handleExplainImage env (Inl e) s)
   \<and> (truthy (topic s) \<and> grade s \<noteq> None \<and> grade s \<noteq> Some 0 \<longrightarrow>
        apiError (handleGenerateNotes env (Inl e) s) = Some (displayedMessage (errorMessage e))
        \<and> isLoading (handleGenerateNotes env (Inl e) s) = False)
   \<and> (inputPrompt s \<noteq> [] \<longrightarrow>
        gameState (handleGenerateVirtualLab env (Inr labSteps) images s) = VIRTUAL_LAB_DISPLAY
        \<and> virtualLabSteps (handleGenerateVirtualLab env (Inr labSteps) images s) =
            map (\<lambda>(i, st). st\<lparr>vl_image := imageOf (images i)\<rparr>) (enumerate 0 labSteps))
   \<and> (truthy (topic s) \<longrightarrow>
        gameState (handleGenerateRealWorldExamples env (Inr examples) images s)
          = REAL_WORLD_CONNECTIONS_DISPLAY
        \<and> realWorldExamples (handleGenerateRealWorldExamples env (Inr examples) images s) =
            map (\<lambda>(i, ex). ex\<lparr>rw_image := imageOf (images i)\<rparr>) (enumerate 0 examples))
   \<and> (inputPrompt s \<noteq> [] \<longrightarrow>
        gameState (handleGenerateScienceFairPlan pidea (Inr planSteps) images s)
          = SCIENCE_FAIR_BUDDY_PLAN
        \<and> scienceFairProjectPlan (handleGenerateScienceFairPlan pidea (Inr planSteps) images s) =
            map (\<lambda>(i, st). st\<lparr>sf_image := imageOf (images i)\<rparr>) (enumerate 0 planSteps))
   \<and> imageOf (Inl e) = None \<and> imageOf (Inr []) = None"
proof (intro conjI impI)
  show "withApiErrorHandler (Inl e) s =
     (None, s\<lparr>apiError := Some (displayedMessage (errorMessage e)), isLoading := False\<rparr>)"
    by (rule withApiErrorHandler_thrown)
  show "errorMessage (ErrorObject m) = m" "errorMessage OtherValue = ''An unexpected error occurred.''"
    by (simp_all add: errorMessage_def)
  show "imageOf (Inl e) = None" "imageOf (Inr []) = None"
    by (simp_all add: imageOf_def)
next
  assume "\<exists>pre post. m = pre @ ''API key not valid'' @ post"
  then show "displayedMessage m = ''The provided API Key is not valid. Please check the configuration.''"
    by (simp add: displayedMessage_def str_includes_iff)
next
  assume "\<not> (\<exists>pre post. m = pre @ ''API key not valid'' @ post)"
  then show "displayedMessage m = m"
    by (simp add: displayedMessage_def str_includes_iff)
next
  assume h: "truthy (topic s) \<and> grade s \<noteq> None \<and> grade s \<noteq> Some 0"
  then show "apiError (handleGenerateNotes env (Inl e) s) = Some (displayedMessage (errorMessage e))"
    by (rule handleGenerateNotes_thrown)
  from h show "isLoading (handleGenerateNotes env (Inl e) s) = False"
    by (rule handleGenerateNotes_thrown)
next
  assume h: "inputPrompt s \<noteq> []"
  then show "gameState (handleGenerateVirtualLab env (Inr labSteps) images s) = VIRTUAL_LAB_DISPLAY"
    by (rule image_calls_virtualLab)
  from h show "virtualLabSteps (handleGenerateVirtualLab env (Inr labSteps) images s) =
            map (\<lambda>(i, st). st\<lparr>vl_image := imageOf (images i)\<rparr>) (enumerate 0 labSteps)"
    by (rule image_calls_virtualLab)
next
  assume h: "truthy (topic s)"
  then show "gameState (handleGenerateRealWorldExamples env (Inr examples) images s)
          = REAL_WORLD_CONNECTIONS_DISPLAY"
    by (rule image_calls_realWorld)
  from h show "realWorldExamples (handleGenerateRealWorldExamples env (Inr examples) images s) =
            map (\<lambda>(i, ex). ex\<lparr>rw_image := imageOf (images i)\<rparr>) (enumerate 0 examples)"
    by (rule image_calls_realWorld)
next
  assume h: "inputPrompt s \<noteq> []"
  then show "gameState (handleGenerateScienceFairPlan pidea (Inr planSteps) images s)
          = SCIENCE_FAIR_BUDDY_PLAN"
    by (rule image_calls_sciencePlan)
  from h show "scienceFairProjectPlan (handleGenerateScienceFairPlan pidea (Inr planSteps) images s) =
            map (\<lambda>(i, st). st\<lparr>sf_image := imageOf (images i)\<rparr>) (enumerate 0 planSteps)"
    by (rule image_calls_sciencePlan)
qed (rule content_call_thrown)+

theorem thrown_content_call_keeps_screen_witness:
  "truthy (topic labState) \<and> grade labState \<noteq> None \<and> grade labState \<noteq> Some 0
   \<and> inputPrompt labState \<noteq> []
   \<and> (\<exists>pre post. ''400: API key not valid. Please pass a valid API key.''
         = pre @ ''API key not valid'' @ post)
   \<and> apiError (handleGenerateNotes exampleEnv
        (Inl (ErrorObject ''400: API key not valid. Please pass a valid API key.'')) labState)
       = Some ''The provided API Key is not valid. Please check the configuration.''
   \<and> gameState (handleGenerateVirtualLab exampleEnv (Inl (ErrorObject ''quota exceeded''))
        allImagesFail labState) = VIRTUAL_LAB_INPUT
   \<and> virtualLabSteps (handleGenerateVirtualLab exampleEnv (Inl (ErrorObject ''quota exceeded''))
        allImagesFail labState) = []
   \<and> gameState (handleGenerateVirtualLab exampleEnv (Inr [volcanoStep]) allImagesFail labState)
       = VIRTUAL_LAB_DISPLAY
   \<and> virtualLabSteps (handleGenerateVirtualLab exampleEnv (Inr [volcanoStep]) allImagesFail labState)
       = [volcanoStep]"
proof -
  have h: "truthy (topic labState) \<and> grade labState \<noteq> None \<and> grade labState \<noteq> Some 0"
    by (simp add: labState_def exampleState_def truthy_def)
  have p: "inputPrompt labState \<noteq> []"
    by (simp add: labState_def exampleState_def)
  have k: "\<exists>pre post. ''400: API key not valid. Please pass a valid API key.''
      = pre @ ''API key not valid'' @ post"
    unfolding str_includes_iff [symmetric] by simp
  have st: "gameState labState = VIRTUAL_LAB_INPUT" "virtualLabSteps labState = []"
    by (simp_all add: labState_def exampleState_def)
  note key = thrown_content_call_keeps_screen
      [where e = "ErrorObject ''400: API key not valid. Please pass a valid API key.''"
         and s = labState and env = exampleEnv
         and m = "''400: API key not valid. Please pass a valid API key.''"]
  from key k have k1: "displayedMessage ''400: API key not valid. Please pass a valid API key.''
      = ''The provided API Key is not valid. Please check the configuration.''"
    by blast
  from key have k2: "errorMessage (ErrorObject ''400: API key not valid. Please pass a valid API key.'')
      = ''400: API key not valid. Please pass a valid API key.''"
    by blast
  from key h have k3: "apiError (handleGenerateNotes exampleEnv
        (Inl (ErrorObject ''400: API key not valid. Please pass a valid API key.'')) labState)
       = Some (displayedMessage
           (errorMessage (ErrorObject ''400: API key not valid. Please pass a valid API key.'')))"
    by blast
  have a: "apiError (handleGenerateNotes exampleEnv
        (Inl (ErrorObject ''400: API key not valid. Please pass a valid API key.'')) labState)
       = Some ''The provided API Key is not valid. Please check the configuration.''"
    by (simp only: k1 k2 k3)
  note quota = thrown_content_call_keeps_screen
      [where e = "ErrorObject ''quota exceeded''" and s = labState and env = exampleEnv
         and images = allImagesFail and labSteps = "[volcanoStep]"]
  from quota have "sameScreenAndContent labState
      (handleGenerateVirtualLab exampleEnv (Inl (ErrorObject ''quota exceeded'')) allImagesFail labState)"
    by blast
  with st have b: "gameState (handleGenerateVirtualLab exampleEnv (Inl (ErrorObject ''quota exceeded''))
        allImagesFail labState) = VIRTUAL_LAB_INPUT"
    and c: "virtualLabSteps (handleGenerateVirtualLab exampleEnv (Inl (ErrorObject ''quota exceeded''))
        allImagesFail labState) = []"
    by (simp_all add: sameScreenAndContent_def)
  from quota p have d: "gameState (handleGenerateVirtualLab exampleEnv (Inr [volcanoStep])
      allImagesFail labState) = VIRTUAL_LAB_DISPLAY"
    by blast
  from quota p have "virtualLabSteps (handleGenerateVirtualLab exampleEnv (Inr [volcanoStep])
      allImagesFail labState)
      = map (\<lambda>(i, st). st\<lparr>vl_image := imageOf (allImagesFail i)\<rparr>) (enumerate 0 [volcanoStep])"
    by blast
  then have f: "virtualLabSteps (handleGenerateVirtualLab exampleEnv (Inr [volcanoStep])
      allImagesFail labState) = [volcanoStep]"
    by (simp add: allImagesFail_def imageOf_def volcanoStep_def)
  from h p k a b c d f show ?thesis
    by blast
qed

text \<open>
  Claim C7 as stated fails. \<open>ann\<close> asks for a virtual experiment; the steps are
  generated, and the image call of the one step throws. The handler stores the step
  without an image and leaves the input screen for the display screen, with the error
  message set.
\<close>

theorem thrown_image_call_advances_screen:
  "gameState labState = VIRTUAL_LAB_INPUT
   \<and> allImagesFail 0 = Inl (ErrorObject ''quota exceeded'')
   \<and> gameState (handleGenerateVirtualLab exampleEnv (Inr [volcanoStep]) allImagesFail labState)
       = VIRTUAL_LAB_DISPLAY
   \<and> virtualLabSteps (handleGenerateVirtualLab exampleEnv (Inr [volcanoStep]) allImagesFail labState)
       = [volcanoStep]
   \<and> apiError (handleGenerateVirtualLab exampleEnv (Inr [volcanoStep]) allImagesFail labState)
       = Some ''quota exceeded''"
  by code_simp

section \<open>Properties of registration\<close>

lemma username_taken_iff:
  "list_ex (\<lambda>u. username u = n) us \<longleftrightarrow> n \<in> set (map username us)"
  by (auto simp: list_ex_iff)

lemma find_snoc_absent:
  "find P xs = None \<Longrightarrow> find P (xs @ [y]) = (if P y then Some y else None)"
  by (induction xs) (simp_all split: if_splits)

lemma currentUser_snoc_fresh:
  assumes "i \<notin> set (map user_id us)" and "user_id nu = i"
  shows "currentUser (us @ [nu]) (Some i) = Some nu"
proof -
  from assms(1) have "find (\<lambda>u. user_id u = i) us = None"
    by (auto simp: find_None_iff)
  with assms(2) show ?thesis
    by (simp add: currentUser_def find_snoc_absent)
qed

text \<open>
  Claim C8. The submitted username and password are not empty and no stored user has that
  username. Then \<open>handleRegister\<close> appends exactly one user to the stored users: the
  generated id, the submitted username and password, no admin rights, no picture, and
  stats of zero quizzes completed and attempted, zero score points, zero questions
  answered, no topic performance, no badges, streak 0 and an empty last-activity date. The
  current-user id becomes the new user's id, the screen is the home screen and the error
  text is empty; when the generated id is not the id of a stored user, the current user
  is the new user.
\<close>

theorem handleRegister_creates_one_user:
  "usernameInput s \<noteq> [] \<and> passwordInput s \<noteq> []
     \<and> usernameInput s \<notin> set (map username (users s)) \<longrightarrow>
   users (handleRegister env s) =
     users s @
       [\<lparr>user_id = env_userId env, username = usernameInput s, password = passwordInput s,
         isAdmin = False, profilePictureUrl = None,
         stats = \<lparr>quizzesCompleted = 0, quizzesAttempted = 0, topicsMastered = [],
                  totalScorePoints = 0, totalQuestionsAnswered = 0,
                  timeSpentLearningInSeconds = 0, topicPerformance = [], badges = [],
                  currentStreak = 0, lastActivityDate = ''''\<rparr>\<rparr>]
   \<and> currentUserId (handleRegister env s) = Some (env_userId env)
   \<and> gameState (handleRegister env s) = HOME_SCREEN
   \<and> authError (handleRegister env s) = ''''
   \<and> (env_userId env \<notin> set (map user_id (users s)) \<longrightarrow>
        currentUser (users (handleRegister env s)) (currentUserId (handleRegister env s)) =
          Some \<lparr>user_id = env_userId env, username = usernameInput s, password = passwordInput s,
                isAdmin = False, profilePictureUrl = None,
                stats = \<lparr>quizzesCompleted = 0, quizzesAttempted = 0, topicsMastered = [],
                         totalScorePoints = 0, totalQuestionsAnswered = 0,
                         timeSpentLearningInSeconds = 0, topicPerformance = [], badges = [],
                         currentStreak = 0, lastActivityDate = ''''\<rparr>\<rparr>)"
proof (intro impI)
  assume h: "usernameInput s \<noteq> [] \<and> passwordInput s \<noteq> []
     \<and> usernameInput s \<notin> set (map username (users s))"
  let ?nu = "newUser (env_userId env) (usernameInput s) (passwordInput s)"
  have nu: "?nu = \<lparr>user_id = env_userId env, username = usernameInput s, password = passwordInput s,
         isAdmin = False, profilePictureUrl = None,
         stats = \<lparr>quizzesCompleted = 0, quizzesAttempted = 0, topicsMastered = [],
                  totalScorePoints = 0, totalQuestionsAnswered = 0,
                  timeSpentLearningInSeconds = 0, topicPerformance = [], badges = [],
                  currentStreak = 0, lastActivityDate = ''''\<rparr>\<rparr>"
    by (simp add: newUser_def initialStats_def)
  from h have u: "users (handleRegister env s) = users s @ [?nu]"
    and c: "currentUserId (handleRegister env s) = Some (env_userId env)"
    and g: "gameState (handleRegister env s) = HOME_SCREEN"
    and a: "authError (handleRegister env s) = ''''"
    by (simp_all add: handleRegister_def username_taken_iff Let_def newUser_def)
  have f: "env_userId env \<notin> set (map user_id (users s)) \<longrightarrow>
      currentUser (users (handleRegister env s)) (currentUserId (handleRegister env s)) = Some ?nu"
    unfolding u c by (auto intro: currentUser_snoc_fresh simp: newUser_def)
  from u c g a f show "users (handleRegister env s) =
     users s @
       [\<lparr>user_id = env_userId env, username = usernameInput s, password = passwordInput s,
         isAdmin = False, profilePictureUrl = None,
         stats = \<lparr>quizzesCompleted = 0, quizzesAttempted = 0, topicsMastered = [],
                  totalScorePoints = 0, totalQuestionsAnswered = 0,
                  timeSpentLearningInSeconds = 0, topicPerformance = [], badges = [],
                  currentStreak = 0, lastActivityDate = ''''\<rparr>\<rparr>]
   \<and> currentUserId (handleRegister env s) = Some (env_userId env)
   \<and> gameState (handleRegister env s) = HOME_SCREEN
   \<and> authError (handleRegister env s) = ''''
   \<and> (env_userId env \<notin> set (map user_id (users s)) \<longrightarrow>
        currentUser (users (handleRegister env s)) (currentUserId (handleRegister env s)) =
          Some \<lparr>user_id = env_userId env, username = usernameInput s, password = passwordInput s,
                isAdmin = False, profilePictureUrl = None,
                stats = \<lparr>quizzesCompleted = 0, quizzesAttempted = 0, topicsMastered = [],
                         totalScorePoints = 0, totalQuestionsAnswered = 0,
                         timeSpentLearningInSeconds = 0, topicPerformance = [], badges = [],
                         currentStreak = 0, lastActivityDate = ''''\<rparr>\<rparr>)"
    unfolding nu by simp
qed

theorem handleRegister_creates_one_user_witness:
  "usernameInput exampleState \<noteq> [] \<and> passwordInput exampleState \<noteq> []
   \<and> usernameInput exampleState \<notin> set (map username (users exampleState))
   \<and> env_userId exampleEnv \<notin> set (map user_id (users exampleState))
   \<and> users (handleRegister exampleEnv exampleState) = [annUser, zedUser]
   \<and> currentUser (users (handleRegister exampleEnv exampleState))
        (currentUserId (handleRegister exampleEnv exampleState)) = Some zedUser"
proof -
  have h: "usernameInput exampleState \<noteq> [] \<and> passwordInput exampleState \<noteq> []
      \<and> usernameInput exampleState \<notin> set (map username (users exampleState))"
    by (simp add: exampleState_def annUser_def newUser_def)
  have i: "env_userId exampleEnv \<notin> set (map user_id (users exampleState))"
    by (simp add: exampleState_def exampleEnv_def annUser_def newUser_def)
  have z: "zedUser = \<lparr>user_id = env_userId exampleEnv, username = usernameInput exampleState,
         password = passwordInput exampleState,
         isAdmin = False, profilePictureUrl = None,
         stats = \<lparr>quizzesCompleted = 0, quizzesAttempted = 0, topicsMastered = [],
                  totalScorePoints = 0, totalQuestionsAnswered = 0,
                  timeSpentLearningInSeconds = 0, topicPerformance = [], badges = [],
                  currentStreak = 0, lastActivityDate = ''''\<rparr>\<rparr>"
    by (simp add: zedUser_def newUser_def initialStats_def exampleState_def exampleEnv_def)
  have us: "users exampleState = [annUser]"
    by (simp add: exampleState_def)
  note reg = handleRegister_creates_one_user [where s = exampleState and env = exampleEnv]
  from h reg have "users (handleRegister exampleEnv exampleState) = users exampleState @ [zedUser]"
    unfolding z by blast
  with us have a: "users (handleRegister exampleEnv exampleState) = [annUser, zedUser]"
    by simp
  from h i reg have b: "currentUser (users (handleRegister exampleEnv exampleState))
        (currentUserId (handleRegister exampleEnv exampleState)) = Some zedUser"
    unfolding z by blast
  from h i a b show ?thesis
    by blast
qed

text \<open>
  Claim C9. The submitted username is empty, or the password is empty, or a stored user
  has the submitted username. Then \<open>handleRegister\<close> changes nothing but the error text:
  the stored users and the current-user id are as before, and the error text is one of
  the two messages, so it is not empty. Whatever the input, the stored users afterwards
  are the stored users before, followed by at most one new user.
\<close>

theorem handleRegister_rejects_atomically:
  "(usernameInput s = [] \<or> passwordInput s = []
      \<or> usernameInput s \<in> set (map username (users s)) \<longrightarrow>
      users (handleRegister env s) = users s
      \<and> currentUserId (handleRegister env s) = currentUserId s
      \<and> authError (handleRegister env s) \<noteq> ''''
      \<and> authError (handleRegister env s) =
          (if usernameInput s \<in> set (map username (users s))
           then ''Username already exists.''
           else ''Username and password cannot be empty.'')
      \<and> handleRegister env s = s\<lparr>authError := authError (handleRegister env s)\<rparr>)
   \<and> (users (handleRegister env s) = users s
        \<or> users (handleRegister env s) =
            users s @ [newUser (env_userId env) (usernameInput s) (passwordInput s)])"
  by (auto simp: handleRegister_def username_taken_iff Let_def)


theorem handleRegister_rejects_atomically_witness:
  "usernameInput (exampleState\<lparr>usernameInput := ''ann''\<rparr>)
     \<in> set (map username (users (exampleState\<lparr>usernameInput := ''ann''\<rparr>)))
   \<and> users (handleRegister exampleEnv (exampleState\<lparr>usernameInput := ''ann''\<rparr>)) = [annUser]
   \<and> currentUserId (handleRegister exampleEnv (exampleState\<lparr>usernameInput := ''ann''\<rparr>)) = None
   \<and> authError (handleRegister exampleEnv (exampleState\<lparr>usernameInput := ''ann''\<rparr>))
       = ''Username already exists.''
   \<and> passwordInput (exampleState\<lparr>passwordInput := []\<rparr>) = []
   \<and> users (handleRegister exampleEnv (exampleState\<lparr>passwordInput := []\<rparr>)) = [annUser]
   \<and> authError (handleRegister exampleEnv (exampleState\<lparr>passwordInput := []\<rparr>))
       = ''Username and password cannot be empty.''"
proof -
  let ?taken = "exampleState\<lparr>usernameInput := ''ann''\<rparr>"
  let ?empty = "exampleState\<lparr>passwordInput := []\<rparr>"
  have h1: "usernameInput ?taken \<in> set (map username (users ?taken))"
    by (simp add: exampleState_def annUser_def newUser_def)
  have h2: "passwordInput ?empty = []"
    by simp
  have n2: "usernameInput ?empty \<notin> set (map username (users ?empty))"
    by (simp add: exampleState_def annUser_def newUser_def)
  have st: "users ?taken = [annUser]" "currentUserId ?taken = None" "users ?empty = [annUser]"
    by (simp_all add: exampleState_def)
  note taken = handleRegister_rejects_atomically [where s = ?taken and env = exampleEnv]
  from h1 taken have t1: "users (handleRegister exampleEnv ?taken) = users ?taken"
    and t2: "currentUserId (handleRegister exampleEnv ?taken) = currentUserId ?taken"
    and t3: "authError (handleRegister exampleEnv ?taken) =
          (if usernameInput ?taken \<in> set (map username (users ?taken))
           then ''Username already exists.''
           else ''Username and password cannot be empty.'')"
    by blast+
  from t3 h1 have t3': "authError (handleRegister exampleEnv ?taken) = ''Username already exists.''"
    by (simp only: if_True)
  note empty = handleRegister_rejects_atomically [where s = ?empty and env = exampleEnv]
  from h2 empty have e1: "users (handleRegister exampleEnv ?empty) = users ?empty"
    and e3: "authError (handleRegister exampleEnv ?empty) =
          (if usernameInput ?empty \<in> set (map username (users ?empty))
           then ''Username already exists.''
           else ''Username and password cannot be empty.'')"
    by blast+
  from e3 n2 have e3': "authError (handleRegister exampleEnv ?empty)
      = ''Username and password cannot be empty.''"
    by (simp only: if_False)
  from h1 h2 t1 t2 t3' e1 e3' st show ?thesis
    by (simp only: simp_thms)
qed

section \<open>Properties of the view router\<close>

lemma renderCase_unguarded:
  "g \<notin> set guardedScreens \<Longrightarrow> renderCase g cu qs sci idea = renderCase g cu' qs' sci' idea'"
  by (cases g) (simp_all add: guardedScreens_def)

lemma renderCase_panel:
  "g \<notin> set guardedScreens \<Longrightarrow> g \<noteq> LOGIN_SCREEN \<Longrightarrow> g \<noteq> REAL_WORLD_CONNECTIONS_INPUT \<Longrightarrow>
     renderCase g cu qs sci idea = Panel g"
  by (cases g) (simp_all add: guardedScreens_def)

lemma gameStateOfValue_valueOfGameState: "gameStateOfValue (valueOfGameState g) = Some g"
  by (cases g) (simp_all add: gameStateOfValue_def valueOfGameState_def gameStates_def)

lemma gameStateOfValue_None: "gameStateOfValue v = None \<longleftrightarrow> 38 \<le> v"
  by (simp add: gameStateOfValue_def gameStates_def)

text \<open>
  Claim C10, as the code has it. \<open>renderContent\<close> is one \<open>switch\<close> on the screen value.
  For every screen except the quiz in progress, the admin panel, the historical chat
  session and the science fair plan, what is rendered is determined by the screen value
  alone, and it is the panel of that screen when the screen has a case. On those four
  screens a guard decides as well: the quiz in progress shows the loader while there are
  no questions, and the other three call \<open>goToHome()\<close> and render nothing for a user who
  is not an admin, without a selected scientist, or without a selected project idea. A
  value that is no screen (38 or more) reaches the default branch, and so do the two
  screens without a case, the login screen and the real-world-connections input.
\<close>

theorem renderContent_dispatch:
  "(gameStateOfValue v = Some g \<and> g \<notin> set guardedScreens \<longrightarrow>
      renderContent v cu qs sci idea = renderContent v cu' qs' sci' idea')
   \<and> (gameStateOfValue v = Some g \<and> g \<notin> set guardedScreens
        \<and> g \<noteq> LOGIN_SCREEN \<and> g \<noteq> REAL_WORLD_CONNECTIONS_INPUT \<longrightarrow>
        renderContent v cu qs sci idea = Panel g)
   \<and> renderContent (valueOfGameState QUIZ_IN_PROGRESS) cu qs sci idea =
        (if qs = [] then FullScreenLoader ''Loading quiz...'' else Panel QUIZ_IN_PROGRESS)
   \<and> renderContent (valueOfGameState ADMIN_PANEL) cu qs sci idea =
        (if isAdmin cu then Panel ADMIN_PANEL else NullAfterGoToHome)
   \<and> renderContent (valueOfGameState HISTORICAL_CHAT_SESSION) cu qs sci idea =
        (if sci = None then NullAfterGoToHome else Panel HISTORICAL_CHAT_SESSION)
   \<and> renderContent (valueOfGameState SCIENCE_FAIR_BUDDY_PLAN) cu qs sci idea =
        (if idea = None then NullAfterGoToHome else Panel SCIENCE_FAIR_BUDDY_PLAN)
   \<and> (38 \<le> v \<longrightarrow> renderContent v cu qs sci idea = UnknownGameState)
   \<and> renderContent (valueOfGameState LOGIN_SCREEN) cu qs sci idea = UnknownGameState
   \<and> renderContent (valueOfGameState REAL_WORLD_CONNECTIONS_INPUT) cu qs sci idea = UnknownGameState"
proof (intro conjI impI)
  assume "gameStateOfValue v = Some g \<and> g \<notin> set guardedScreens"
  then show "renderContent v cu qs sci idea = renderContent v cu' qs' sci' idea'"
    using renderCase_unguarded [of g cu qs sci idea cu' qs' sci' idea']
    by (simp add: renderContent_def)
next
  assume "gameStateOfValue v = Some g \<and> g \<notin> set guardedScreens
        \<and> g \<noteq> LOGIN_SCREEN \<and> g \<noteq> REAL_WORLD_CONNECTIONS_INPUT"
  then show "renderContent v cu qs sci idea = Panel g"
    by (simp add: renderContent_def renderCase_panel)
next
  assume "38 \<le> v"
  then show "renderContent v cu qs sci idea = UnknownGameState"
    by (simp add: renderContent_def gameStateOfValue_None [symmetric])
qed (simp_all add: renderContent_def gameStateOfValue_valueOfGameState)

theorem renderContent_dispatch_witness:
  "gameStateOfValue 17 = Some NOTES_DISPLAY \<and> NOTES_DISPLAY \<notin> set guardedScreens
   \<and> renderContent 17 annUser exampleQuestions None None = Panel NOTES_DISPLAY
   \<and> renderContent 17 zedUser [] None None = Panel NOTES_DISPLAY
   \<and> renderContent 38 zedUser [] None None = UnknownGameState"
proof -
  have h: "gameStateOfValue 17 = Some NOTES_DISPLAY \<and> NOTES_DISPLAY \<notin> set guardedScreens
      \<and> NOTES_DISPLAY \<noteq> LOGIN_SCREEN \<and> NOTES_DISPLAY \<noteq> REAL_WORLD_CONNECTIONS_INPUT"
    by (simp add: gameStateOfValue_def gameStates_def guardedScreens_def)
  have k: "(38::nat) \<le> 38"
    by simp
  from h
    renderContent_dispatch [where v = 17 and g = NOTES_DISPLAY and cu = annUser
      and qs = exampleQuestions and sci = None and idea = None]
  have a: "renderContent 17 annUser exampleQuestions None None = Panel NOTES_DISPLAY"
    by blast
  from h
    renderContent_dispatch [where v = 17 and g = NOTES_DISPLAY and cu = zedUser
      and qs = "[]" and sci = None and idea = None]
  have b: "renderContent 17 zedUser [] None None = Panel NOTES_DISPLAY"
    by blast
  from k
    renderContent_dispatch [where v = 38 and cu = zedUser and qs = "[]" and sci = None
      and idea = None]
  have c: "renderContent 38 zedUser [] None None = UnknownGameState"
    by blast
  from h a b c show ?thesis
    by blast
qed

text \<open>
  Claim C10 as stated fails. Two renders with the same screen value, the admin panel (21),
  select different things: the panel for the admin \<open>ann\<close>, and nothing, after a call of
  \<open>goToHome()\<close>, for \<open>zed\<close>, who is not an admin.
\<close>

theorem renderContent_same_screen_different_panel:
  "valueOfGameState ADMIN_PANEL = 21
   \<and> renderContent 21 annUser [] None None = Panel ADMIN_PANEL
   \<and> renderContent 21 zedUser [] None None = NullAfterGoToHome
   \<and> renderContent 21 annUser [] None None \<noteq> renderContent 21 zedUser [] None None"
  by (simp add: valueOfGameState_def renderContent_def gameStateOfValue_def gameStates_def
      annUser_def zedUser_def newUser_def)

end
